theory Spec2Isabelle
  imports Main "HOL-Library.AList"
begin

section \<open>Strings\<close>

text \<open>
  A Python string is represented by its UTF-8 encoding, a list of bytes; an ASCII
  string is the list of its characters.

  \<^verbatim>\<open>str.lower()\<close> maps the letters A..Z to a..z.  Beyond ASCII it maps exactly two
  code points to text with ASCII letters in it: the Kelvin sign U+212A (bytes E2 84 AA)
  to \<^verbatim>\<open>k\<close>, and the dotted capital I U+0130 (bytes C4 B0) to \<^verbatim>\<open>i\<close> followed by the
  combining dot U+0307 (bytes CC 87).  Every other code point beyond ASCII goes to code
  points beyond ASCII; the model leaves those as they are, which no search for an ASCII
  fragment can tell from the lower-cased text.
\<close>

definition lower_char :: "char \<Rightarrow> char" where
  "lower_char c =
     (let n = (of_char c :: nat)
      in if 65 \<le> n \<and> n \<le> 90 then char_of (n + 32) else c)"

function lower :: "string \<Rightarrow> string" where
  "lower [] = []"
| "lower (a # rest) =
     (if a = CHR 0xE2 \<and> take 2 rest = [CHR 0x84, CHR 0xAA]
        then CHR ''k'' # lower (drop 2 rest)
      else if a = CHR 0xC4 \<and> take 1 rest = [CHR 0xB0]
        then CHR ''i'' # CHR 0xCC # CHR 0x87 # lower (drop 1 rest)
      else lower_char a # lower rest)"
  by pat_completeness auto
termination
  by (relation "measure length") auto

text \<open>\<^verbatim>\<open>s.startswith(p)\<close>.\<close>

fun startswith :: "string \<Rightarrow> string \<Rightarrow> bool" where
  "startswith s [] = True"
| "startswith [] (p # ps) = False"
| "startswith (c # cs) (p # ps) = (c = p \<and> startswith cs ps)"

text \<open>\<^verbatim>\<open>needle in haystack\<close> on strings: the needle occurs as a contiguous block.\<close>

fun str_in :: "string \<Rightarrow> string \<Rightarrow> bool" where
  "str_in needle [] = (needle = [])"
| "str_in needle (c # cs) = (startswith (c # cs) needle \<or> str_in needle cs)"

section \<open>Platform classifier\<close>

text \<open>\<^verbatim>\<open>SOCIAL_MEDIA_PLATFORMS\<close> of \<^verbatim>\<open>config.py\<close>, in the order it is written.\<close>

definition SOCIAL_MEDIA_PLATFORMS :: "(string \<times> string list) list" where
  "SOCIAL_MEDIA_PLATFORMS =
     [(''youtube'', [''youtube.com'', ''youtu.be'']),
      (''instagram'', [''instagram.com'', ''instagr.am'']),
      (''tiktok'', [''tiktok.com'']),
      (''pinterest'', [''pinterest.com'', ''pin.it'']),
      (''soundcloud'', [''soundcloud.com''])]"

text \<open>\<^verbatim>\<open>get_platform_from_url\<close> of \<^verbatim>\<open>utils/helpers.py\<close>.\<close>

definition get_platform_from_url :: "string \<Rightarrow> string option" where
  "get_platform_from_url url =
     (let url_lower = lower url
      in if str_in ''youtube.com'' url_lower \<or> str_in ''youtu.be'' url_lower then Some ''youtube''
         else if str_in ''instagram.com'' url_lower \<or> str_in ''instagr.am'' url_lower
           then Some ''instagram''
         else if str_in ''tiktok.com'' url_lower then Some ''tiktok''
         else if str_in ''pinterest.com'' url_lower \<or> str_in ''pin.it'' url_lower
           then Some ''pinterest''
         else if str_in ''soundcloud.com'' url_lower then Some ''soundcloud''
         else None)"

text \<open>\<^verbatim>\<open>Downloader._get_platform_from_url\<close> of \<^verbatim>\<open>services/downloader.py\<close>.\<close>

definition downloader_get_platform_from_url :: "string \<Rightarrow> string option" where
  "downloader_get_platform_from_url url =
     (let url_lower = lower url
      in if str_in ''youtube.com'' url_lower \<or> str_in ''youtu.be'' url_lower then Some ''youtube''
         else if str_in ''instagram.com'' url_lower \<or> str_in ''instagr.am'' url_lower
           then Some ''instagram''
         else if str_in ''tiktok.com'' url_lower then Some ''tiktok''
         else if str_in ''pinterest.com'' url_lower \<or> str_in ''pin.it'' url_lower
           then Some ''pinterest''
         else if str_in ''soundcloud.com'' url_lower then Some ''soundcloud''
         else None)"
section \<open>Python values and exceptions\<close>

text \<open>
  The fingerprinting response is an untyped tree of dictionaries, lists and scalars.
  Dictionaries keep their insertion order, so they are association lists.
\<close>

datatype pyval =
    PNone
  | PBool bool
  | PInt int
  | PStr string
  | PList "pyval list"
  | PDict "(string \<times> pyval) list"

datatype py_error =
    IndexError
  | KeyError
  | AttributeError
  | TypeError
  | NameError
  | ValueError
  | FileNotFoundError
  | UnicodeDecodeError
  | ServiceError

text \<open>Truth value of an object, as \<^verbatim>\<open>if x:\<close> and \<^verbatim>\<open>x and y\<close> test it.\<close>

fun truthy :: "pyval \<Rightarrow> bool" where
  "truthy PNone = False"
| "truthy (PBool b) = b"
| "truthy (PInt i) = (i \<noteq> 0)"
| "truthy (PStr s) = (s \<noteq> [])"
| "truthy (PList xs) = (xs \<noteq> [])"
| "truthy (PDict kvs) = (kvs \<noteq> [])"

text \<open>
  \<^verbatim>\<open>v.get(key, default)\<close>: only a dictionary has the method; on any other object the
  attribute lookup raises AttributeError.
\<close>

fun py_get :: "pyval \<Rightarrow> string \<Rightarrow> pyval \<Rightarrow> py_error + pyval" where
  "py_get (PDict kvs) k dflt = (case map_of kvs k of Some v \<Rightarrow> Inr v | None \<Rightarrow> Inr dflt)"
| "py_get v k dflt = Inl AttributeError"

text \<open>
  \<^verbatim>\<open>v[i]\<close> for a non-negative literal index: a list or a string raises IndexError out
  of range, a dictionary keyed by strings has no integer key (KeyError), and the
  scalars are not subscriptable (TypeError).
\<close>

fun py_index :: "pyval \<Rightarrow> nat \<Rightarrow> py_error + pyval" where
  "py_index (PList xs) i = (if i < length xs then Inr (xs ! i) else Inl IndexError)"
| "py_index (PStr s) i = (if i < length s then Inr (PStr [s ! i]) else Inl IndexError)"
| "py_index (PDict kvs) i = Inl KeyError"
| "py_index v i = Inl TypeError"

text \<open>
  One link of an access chain such as
  \<^verbatim>\<open>track.get('hub', {}).get('options', [{}])[1].get('actions', [{}])[0].get('uri', '')\<close>.
  The chain is evaluated left to right and stops at the first exception.
\<close>

datatype access = Get string pyval | Index nat

fun access_one :: "access \<Rightarrow> pyval \<Rightarrow> py_error + pyval" where
  "access_one (Get k dflt) v = py_get v k dflt"
| "access_one (Index i) v = py_index v i"

fun access_chain :: "access list \<Rightarrow> pyval \<Rightarrow> py_error + pyval" where
  "access_chain [] v = Inr v"
| "access_chain (a # as) v =
     (case access_one a v of Inl e \<Rightarrow> Inl e | Inr w \<Rightarrow> access_chain as w)"

text \<open>
  A dictionary display \<^verbatim>\<open>{k1: e1, k2: e2, ...}\<close> evaluates its entries in order; the
  first entry that raises aborts the whole display.
\<close>

fun build_dict :: "(string \<times> (py_error + pyval)) list \<Rightarrow> py_error + (string \<times> pyval) list" where
  "build_dict [] = Inr []"
| "build_dict ((k, Inl e) # rest) = Inl e"
| "build_dict ((k, Inr v) # rest) =
     (case build_dict rest of Inl e \<Rightarrow> Inl e | Inr kvs \<Rightarrow> Inr ((k, v) # kvs))"

section \<open>Recognizer\<close>

text \<open>The default arguments \<^verbatim>\<open>{}\<close> and \<^verbatim>\<open>[{}]\<close> used by the extraction paths.\<close>

definition empty_dict :: pyval where
  "empty_dict = PDict []"

definition list_of_empty_dict :: pyval where
  "list_of_empty_dict = PList [PDict []]"

text \<open>The dictionary display of \<^verbatim>\<open>SongRecognizer.recognize_song\<close>, for a given track.\<close>

definition song_info_of_track :: "pyval \<Rightarrow> py_error + (string \<times> pyval) list" where
  "song_info_of_track track = build_dict
     [(''title'', access_chain [Get ''title'' (PStr ''Unknown'')] track),
      (''artist'', access_chain [Get ''subtitle'' (PStr ''Unknown'')] track),
      (''album'', access_chain
          [Get ''sections'' list_of_empty_dict, Index 0,
           Get ''metadata'' list_of_empty_dict, Index 0,
           Get ''text'' (PStr ''Unknown'')] track),
      (''duration'', access_chain [Get ''duration'' (PInt 0)] track),
      (''genre'', access_chain [Get ''genres'' empty_dict, Get ''primary'' (PStr [])] track),
      (''year'', access_chain [Get ''year'' (PInt 0)] track),
      (''spotify_url'', access_chain
          [Get ''hub'' empty_dict, Get ''actions'' list_of_empty_dict, Index 0,
           Get ''uri'' (PStr [])] track),
      (''apple_url'', access_chain
          [Get ''hub'' empty_dict, Get ''options'' list_of_empty_dict, Index 0,
           Get ''actions'' list_of_empty_dict, Index 0, Get ''uri'' (PStr [])] track),
      (''youtube_url'', access_chain
          [Get ''hub'' empty_dict, Get ''options'' list_of_empty_dict, Index 1,
           Get ''actions'' list_of_empty_dict, Index 0, Get ''uri'' (PStr [])] track),
      (''image_url'', access_chain
          [Get ''images'' empty_dict, Get ''coverarthq'' (PStr [])] track),
      (''shazam_id'', access_chain [Get ''key'' (PStr [])] track),
      (''isrc'', access_chain [Get ''isrc'' (PStr [])] track)]"

text \<open>
  \<^verbatim>\<open>SongRecognizer.recognize_song\<close>.  The two things it asks of the outside world are
  arguments: whether the file exists, and what \<^verbatim>\<open>shazam.recognize\<close> answers (a value, or
  an exception).  Every exception raised inside the \<^verbatim>\<open>try\<close> block is caught and turned
  into \<^verbatim>\<open>None\<close>.
\<close>

definition recognize_song ::
  "bool \<Rightarrow> (py_error + pyval) \<Rightarrow> (string \<times> pyval) list option" where
  "recognize_song file_exists response =
     (if \<not> file_exists then None
      else case response of
        Inl e \<Rightarrow> None
      | Inr result \<Rightarrow>
          (if \<not> truthy result then None
           else case py_get result ''track'' PNone of
             Inl e \<Rightarrow> None
           | Inr track \<Rightarrow>
               (if \<not> truthy track then None
                else case song_info_of_track track of
                  Inl e \<Rightarrow> None
                | Inr song_info \<Rightarrow> Some song_info)))"

section \<open>Parsing an integer\<close>

text \<open>
  The code points of a string: UTF-8 decoded, \<open>None\<close> on bytes that are not
  well-formed (which encode no string).
\<close>

definition byte_in :: "nat \<Rightarrow> nat \<Rightarrow> char \<Rightarrow> bool" where
  "byte_in lo hi c = (lo \<le> (of_char c :: nat) \<and> (of_char c :: nat) \<le> hi)"

definition cont_bits :: "char \<Rightarrow> int" where
  "cont_bits c = (of_char c :: int) - 128"

fun code_points :: "string \<Rightarrow> int list option" where
  "code_points [] = Some []"
| "code_points (a # rest) =
     (if byte_in 0 127 a then map_option ((#) (of_char a :: int)) (code_points rest)
      else if byte_in 194 223 a then
        (case rest of
           b # rest1 \<Rightarrow>
             if byte_in 128 191 b
             then map_option ((#) (((of_char a :: int) - 192) * 64 + cont_bits b))
                    (code_points rest1)
             else None
         | _ \<Rightarrow> None)
      else if byte_in 224 239 a then
        (case rest of
           b # c # rest2 \<Rightarrow>
             if byte_in (if a = CHR 0xE0 then 160 else 128) (if a = CHR 0xED then 159 else 191) b
                \<and> byte_in 128 191 c
             then map_option
                    ((#) (((of_char a :: int) - 224) * 4096 + cont_bits b * 64 + cont_bits c))
                    (code_points rest2)
             else None
         | _ \<Rightarrow> None)
      else if byte_in 240 244 a then
        (case rest of
           b # c # d # rest3 \<Rightarrow>
             if byte_in (if a = CHR 0xF0 then 144 else 128) (if a = CHR 0xF4 then 143 else 191) b
                \<and> byte_in 128 191 c \<and> byte_in 128 191 d
             then map_option
                    ((#) (((of_char a :: int) - 240) * 262144 + cont_bits b * 4096
                          + cont_bits c * 64 + cont_bits d))
                    (code_points rest3)
             else None
         | _ \<Rightarrow> None)
      else None)"

text \<open>
  \<^verbatim>\<open>int(text)\<close> on a string, in base 10.  Whitespace around the literal is skipped:
  the ASCII characters tab, line feed, vertical tab, form feed, carriage return and
  space, and the white space beyond ASCII (the ASCII separators 1C to 1F are not
  skipped).  One sign may lead.  The rest must be decimal digits, of any script, where
  single underscores may separate digits.  Anything else raises ValueError, here
  \<open>None\<close>; so does a literal of more than 4300 digits (interpreters since 3.11).
\<close>

definition is_space :: "int \<Rightarrow> bool" where
  "is_space cp =
     ((9 \<le> cp \<and> cp \<le> 13) \<or> cp = 32 \<or> cp = 133 \<or> cp = 160 \<or> cp = 5760
      \<or> (8192 \<le> cp \<and> cp \<le> 8202) \<or> cp = 8232 \<or> cp = 8233 \<or> cp = 8239
      \<or> cp = 8287 \<or> cp = 12288)"

text \<open>
  The code points with decimal value 0 (Unicode 14, the database of the 3.11
  interpreter); in every script the digits 0 to 9 are ten consecutive code points.
\<close>

definition decimal_zeros :: "int list" where
  "decimal_zeros =
     [48, 1632, 1776, 1984, 2406, 2534, 2662, 2790, 2918, 3046,
      3174, 3302, 3430, 3558, 3664, 3792, 3872, 4160, 4240, 6112,
      6160, 6470, 6608, 6784, 6800, 6992, 7088, 7232, 7248, 42528,
      43216, 43264, 43472, 43504, 43600, 44016, 65296, 66720, 68912, 69734,
      69872, 69942, 70096, 70384, 70736, 70864, 71248, 71360, 71472, 71904,
      72016, 72784, 73040, 73120, 92768, 92864, 93008, 120782, 120792, 120802,
      120812, 120822, 123200, 123632, 125264, 130032]"

definition is_decimal :: "int \<Rightarrow> bool" where
  "is_decimal cp = list_ex (\<lambda>z. z \<le> cp \<and> cp < z + 10) decimal_zeros"

definition decimal_value :: "int \<Rightarrow> int" where
  "decimal_value cp =
     (case filter (\<lambda>z. z \<le> cp \<and> cp < z + 10) decimal_zeros of
        [] \<Rightarrow> 0
      | z # zs \<Rightarrow> cp - z)"

definition strip :: "int list \<Rightarrow> int list" where
  "strip s = rev (dropWhile is_space (rev (dropWhile is_space s)))"

text \<open>
  The digits of a literal, left to right: \<open>acc\<close> is the value read so far and \<open>after_digit\<close>
  tells whether the previous character was a digit (an underscore, code point 95, is
  allowed only there, and the literal must end on a digit).
\<close>

fun parse_digits :: "int \<Rightarrow> bool \<Rightarrow> int list \<Rightarrow> int option" where
  "parse_digits acc after_digit [] = (if after_digit then Some acc else None)"
| "parse_digits acc after_digit (c # cs) =
     (if is_decimal c then parse_digits (acc * 10 + decimal_value c) True cs
      else if c = 95 \<and> after_digit then parse_digits acc False cs
      else None)"

definition parse_literal :: "int list \<Rightarrow> int option" where
  "parse_literal body =
     (if int (length (filter is_decimal body)) > 4300 then None
      else parse_digits 0 False body)"

definition py_int :: "string \<Rightarrow> int option" where
  "py_int text =
     (case code_points text of
        None \<Rightarrow> None
      | Some cps \<Rightarrow>
          (case strip cps of
             [] \<Rightarrow> None
           | c # cs \<Rightarrow>
               if c = 45 then map_option uminus (parse_literal cs)
               else if c = 43 then parse_literal cs
               else parse_literal (c # cs)))"

section \<open>Record store\<close>

subsection \<open>Time, keys and module names\<close>

text \<open>
  A naive \<^verbatim>\<open>datetime\<close> is the number of microseconds since the epoch.  The store keeps
  timestamps as ISO-8601 text (\<^verbatim>\<open>isoformat()\<close>) and reads them back with
  \<^verbatim>\<open>datetime.fromisoformat\<close>; the text is represented by the instant it denotes, these
  two library functions being inverse to each other on naive datetimes.

  \<^verbatim>\<open>datetime.now()\<close> is read several times inside one call; a \<open>clock\<close> gives the
  readings of one call in the order in which the call takes them.
\<close>

type_synonym timestamp = int

type_synonym clock = "nat \<Rightarrow> timestamp"

text \<open>\<^verbatim>\<open>timedelta(hours=h)\<close> and \<^verbatim>\<open>timedelta(minutes=m)\<close>, in microseconds.\<close>

definition hours :: "int \<Rightarrow> int" where
  "hours h = h * 3600000000"


text \<open>\<^verbatim>\<open>str(n)\<close> for an integer: an optional minus sign and the decimal digits.\<close>

fun str_nat :: "nat \<Rightarrow> string" where
  "str_nat n =
     (if n < 10 then [char_of (48 + n)]
      else str_nat (n div 10) @ [char_of (48 + n mod 10)])"

definition str_int :: "int \<Rightarrow> string" where
  "str_int i = (if i < 0 then CHR ''-'' # str_nat (nat (- i)) else str_nat (nat i))"

text \<open>
  The names bound at module level in \<^verbatim>\<open>services/firebase_service.py\<close>: its imports
  (lines 5 to 20), the availability flag, the logger and the class.  The three Firebase
  names are bound only when that import succeeds.  A name that is neither in this list
  nor a builtin raises NameError when it is evaluated.
\<close>

definition firebase_service_globals :: "string list" where
  "firebase_service_globals =
     [''asyncio'', ''json'', ''logging'', ''os'', ''datetime'',
      ''Dict'', ''List'', ''Optional'', ''Any'',
      ''firebase_admin'', ''credentials'', ''firestore'', ''FIREBASE_AVAILABLE'',
      ''User'', ''Song'', ''logger'', ''FirebaseService'']"

definition lookup_global :: "string \<Rightarrow> py_error + unit" where
  "lookup_global name =
     (if name \<in> set firebase_service_globals then Inr () else Inl NameError)"

subsection \<open>Records\<close>

text \<open>The class \<^verbatim>\<open>User\<close> of \<^verbatim>\<open>models/user.py\<close>; an attribute that may be None is an option.\<close>

record user =
  u_id :: int
  u_username :: "string option"
  u_first_name :: "string option"
  u_last_name :: "string option"
  u_language :: string
  u_joined_at :: "timestamp option"
  u_is_active :: bool

text \<open>
  \<^verbatim>\<open>User.__init__\<close>: \<^verbatim>\<open>joined_at or datetime.now()\<close> reads the clock only when no
  join time is given; \<open>now\<close> is that reading.
\<close>

definition User ::
  "timestamp \<Rightarrow> int \<Rightarrow> string option \<Rightarrow> string option \<Rightarrow> string option \<Rightarrow> string \<Rightarrow>
   timestamp option \<Rightarrow> bool \<Rightarrow> user" where
  "User now i username first_name last_name language joined_at is_active =
     \<lparr>u_id = i, u_username = username, u_first_name = first_name, u_last_name = last_name,
      u_language = language,
      u_joined_at = Some (case joined_at of Some t \<Rightarrow> t | None \<Rightarrow> now),
      u_is_active = is_active\<rparr>"

text \<open>The document \<^verbatim>\<open>user_data\<close> that \<^verbatim>\<open>save_user\<close> writes.\<close>

record user_data =
  ud_id :: int
  ud_username :: "string option"
  ud_first_name :: "string option"
  ud_last_name :: "string option"
  ud_language :: string
  ud_joined_at :: timestamp
  ud_last_activity :: timestamp
  ud_is_active :: bool

text \<open>The class \<^verbatim>\<open>Song\<close> of \<^verbatim>\<open>models/song.py\<close>.\<close>

record song =
  s_id :: int
  s_title :: string
  s_artist :: string
  s_album :: string
  s_duration :: int
  s_genre :: string
  s_year :: int
  s_spotify_url :: string
  s_apple_url :: string
  s_youtube_url :: string
  s_image_url :: string
  s_shazam_id :: string
  s_isrc :: string
  s_recognized_at :: "timestamp option"
  s_user_id :: "int option"

text \<open>The document \<^verbatim>\<open>song_data\<close> that \<^verbatim>\<open>save_song\<close> writes.\<close>

record song_data =
  sd_title :: string
  sd_artist :: string
  sd_album :: string
  sd_duration :: int
  sd_genre :: string
  sd_year :: int
  sd_spotify_url :: string
  sd_apple_url :: string
  sd_youtube_url :: string
  sd_image_url :: string
  sd_shazam_id :: string
  sd_isrc :: string
  sd_recognized_at :: timestamp
  sd_user_id :: "int option"

text \<open>
  A value of the statistics dictionary: the counters are integers, \<^verbatim>\<open>last_updated\<close> is
  ISO text.
\<close>

datatype stat_value = Count int | Stamp timestamp

text \<open>The document \<^verbatim>\<open>broadcast_data\<close> that \<^verbatim>\<open>save_broadcast_message\<close> writes.\<close>

record broadcast_data =
  b_id :: string
  b_message :: string
  b_duration_hours :: int
  b_sent_by :: int
  b_sent_at :: timestamp
  b_expires_at :: "timestamp option"
  b_is_active :: bool

text \<open>
  The state of a \<^verbatim>\<open>FirebaseService\<close>.  \<open>initialized\<close> is the test
  \<^verbatim>\<open>self.initialized and self.db\<close> that every operation branches on: when it holds the
  four fields are the collections of the durable document store (\<open>statistics\<close> is the
  document \<^verbatim>\<open>bot_stats\<close>, absent until first written), otherwise they are the entries
  of \<^verbatim>\<open>self.local_storage\<close> (where the key \<^verbatim>\<open>broadcasts\<close> is absent until the first
  broadcast is saved).  Dictionaries and collections are association lists in insertion
  order.  The durable store is modelled at its interface, as a document map whose calls
  succeed; transport failures of the client library are outside the model.
\<close>

record store =
  initialized :: bool
  users :: "(string \<times> user_data) list"
  songs :: "(string \<times> song_data) list"
  statistics :: "(string \<times> stat_value) list option"
  broadcasts :: "(string \<times> broadcast_data) list option"

text \<open>The statistics dictionary written by \<^verbatim>\<open>_use_local_storage\<close> and used as default.\<close>

definition zero_statistics :: "timestamp \<Rightarrow> (string \<times> stat_value) list" where
  "zero_statistics now =
     [(''total_users'', Count 0), (''songs_recognized'', Count 0),
      (''songs_downloaded'', Count 0), (''last_updated'', Stamp now)]"

text \<open>\<^verbatim>\<open>FirebaseService._use_local_storage\<close>.\<close>

definition use_local_storage :: "timestamp \<Rightarrow> store" where
  "use_local_storage now =
     \<lparr>initialized = False, users = [], songs = [],
      statistics = Some (zero_statistics now), broadcasts = None\<rparr>"

subsection \<open>Users\<close>

text \<open>
  \<^verbatim>\<open>FirebaseService.save_user\<close>.  The clock is read for \<^verbatim>\<open>joined_at\<close> only when the user
  has none, then for \<^verbatim>\<open>last_activity\<close>.  In the local branch the user is stored before the
  statistics entry is looked up.
\<close>

definition save_user :: "store \<Rightarrow> clock \<Rightarrow> user \<Rightarrow> store \<times> bool" where
  "save_user st clk u =
     (let user_data =
            \<lparr>ud_id = u_id u, ud_username = u_username u, ud_first_name = u_first_name u,
             ud_last_name = u_last_name u, ud_language = u_language u,
             ud_joined_at = (case u_joined_at u of Some t \<Rightarrow> t | None \<Rightarrow> clk 0),
             ud_last_activity = (case u_joined_at u of Some t \<Rightarrow> clk 0 | None \<Rightarrow> clk 1),
             ud_is_active = True\<rparr>;
          st1 = st\<lparr>users := AList.update (str_int (u_id u)) user_data (users st)\<rparr>
      in if initialized st then (st1, True)
         else case statistics st1 of
           None \<Rightarrow> (st1, False)
         | Some stats \<Rightarrow>
             (st1\<lparr>statistics :=
                    Some (AList.update ''total_users'' (Count (int (length (users st1)))) stats)\<rparr>,
              True))"

text \<open>
  The \<^verbatim>\<open>User(...)\<close> that the read operations build from a stored document.  The join
  time is given, so the constructor does not read the clock (its first argument is not
  used), and \<^verbatim>\<open>is_active\<close> is not passed, so it takes its default True.
\<close>

definition user_of_data :: "user_data \<Rightarrow> user" where
  "user_of_data d =
     User 0 (ud_id d) (ud_username d) (ud_first_name d) (ud_last_name d) (ud_language d)
       (Some (ud_joined_at d)) True"

text \<open>\<^verbatim>\<open>FirebaseService.get_user\<close>; both branches read the document under \<^verbatim>\<open>str(user_id)\<close>.\<close>

definition get_user :: "store \<Rightarrow> int \<Rightarrow> user option" where
  "get_user st user_id =
     (if initialized st then
        (case map_of (users st) (str_int user_id) of
           Some d \<Rightarrow> Some (user_of_data d)
         | None \<Rightarrow> None)
      else
        (case map_of (users st) (str_int user_id) of
           Some d \<Rightarrow> Some (user_of_data d)
         | None \<Rightarrow> None))"

text \<open>
  \<^verbatim>\<open>FirebaseService.update_user_language\<close>.  The durable store's \<^verbatim>\<open>update\<close> raises on a
  missing document; the local branch skips a missing user and still answers True.
\<close>

definition update_user_language :: "store \<Rightarrow> clock \<Rightarrow> int \<Rightarrow> string \<Rightarrow> store \<times> bool" where
  "update_user_language st clk user_id language =
     (let key = str_int user_id
      in case map_of (users st) key of
           None \<Rightarrow> (st, \<not> initialized st)
         | Some d \<Rightarrow>
             (st\<lparr>users := AList.update key
                    (d\<lparr>ud_language := language, ud_last_activity := clk 0\<rparr>) (users st)\<rparr>,
              True))"

text \<open>
  \<^verbatim>\<open>FirebaseService.get_all_users\<close>.  The default argument \<^verbatim>\<open>int(doc.id)\<close> of
  \<^verbatim>\<open>data.get('id', ...)\<close> is evaluated for every document, so a key that is not a
  number raises ValueError, and the handler then answers the empty list.
\<close>

fun collect_users :: "(string \<times> user_data) list \<Rightarrow> py_error + user list" where
  "collect_users [] = Inr []"
| "collect_users ((key, d) # rest) =
     (case py_int key of
        None \<Rightarrow> Inl ValueError
      | Some i \<Rightarrow>
          (case collect_users rest of
             Inl e \<Rightarrow> Inl e
           | Inr us \<Rightarrow> Inr (user_of_data d # us)))"

definition get_all_users :: "store \<Rightarrow> user list" where
  "get_all_users st = (case collect_users (users st) of Inl e \<Rightarrow> [] | Inr us \<Rightarrow> us)"

subsection \<open>Songs\<close>

text \<open>
  \<^verbatim>\<open>FirebaseService.save_song\<close>: the key is \<^verbatim>\<open>song.shazam_id or str(song.id)\<close>, and both
  branches write the same document.
\<close>

definition save_song :: "store \<Rightarrow> clock \<Rightarrow> song \<Rightarrow> store \<times> bool" where
  "save_song st clk s =
     (let song_data =
            \<lparr>sd_title = s_title s, sd_artist = s_artist s, sd_album = s_album s,
             sd_duration = s_duration s, sd_genre = s_genre s, sd_year = s_year s,
             sd_spotify_url = s_spotify_url s, sd_apple_url = s_apple_url s,
             sd_youtube_url = s_youtube_url s, sd_image_url = s_image_url s,
             sd_shazam_id = s_shazam_id s, sd_isrc = s_isrc s,
             sd_recognized_at = (case s_recognized_at s of Some t \<Rightarrow> t | None \<Rightarrow> clk 0),
             sd_user_id = s_user_id s\<rparr>;
          song_id = (if s_shazam_id s \<noteq> [] then s_shazam_id s else str_int (s_id s))
      in (st\<lparr>songs := AList.update song_id song_data (songs st)\<rparr>, True))"

text \<open>
  \<^verbatim>\<open>FirebaseService.get_song\<close>.  The stored document has no key \<^verbatim>\<open>id\<close>, so the song
  read back has the default identifier 0.
\<close>

definition song_of_data :: "song_data \<Rightarrow> song" where
  "song_of_data d =
     \<lparr>s_id = 0, s_title = sd_title d, s_artist = sd_artist d, s_album = sd_album d,
      s_duration = sd_duration d, s_genre = sd_genre d, s_year = sd_year d,
      s_spotify_url = sd_spotify_url d, s_apple_url = sd_apple_url d,
      s_youtube_url = sd_youtube_url d, s_image_url = sd_image_url d,
      s_shazam_id = sd_shazam_id d, s_isrc = sd_isrc d,
      s_recognized_at = Some (sd_recognized_at d), s_user_id = sd_user_id d\<rparr>"

definition get_song :: "store \<Rightarrow> string \<Rightarrow> song option" where
  "get_song st song_id = map_option song_of_data (map_of (songs st) song_id)"

subsection \<open>Statistics\<close>

text \<open>
  \<^verbatim>\<open>FirebaseService.get_statistics\<close>.  On the durable store an absent statistics
  document is computed from the sizes of the two collections and written; the local
  branch returns the dictionary (a missing one raises KeyError, and the handler answers
  the zero dictionary).
\<close>

definition get_statistics :: "store \<Rightarrow> clock \<Rightarrow> store \<times> (string \<times> stat_value) list" where
  "get_statistics st clk =
     (if initialized st then
        (case statistics st of
           Some stats \<Rightarrow> (st, stats)
         | None \<Rightarrow>
             (let users_count = int (length (users st));
                  songs_count = int (length (songs st));
                  stats = [(''total_users'', Count users_count),
                           (''songs_recognized'', Count songs_count),
                           (''songs_downloaded'', Count songs_count),
                           (''last_updated'', Stamp (clk 0))]
              in (st\<lparr>statistics := Some stats\<rparr>, stats)))
      else
        (case statistics st of
           Some stats \<Rightarrow> (st, stats)
         | None \<Rightarrow> (st, zero_statistics (clk 0))))"

text \<open>
  The statement \<^verbatim>\<open>stats[stat_name] += 1\<close> under \<^verbatim>\<open>if stat_name in stats\<close>, else
  \<^verbatim>\<open>stats[stat_name] = 1\<close>.  Adding 1 to the text under \<^verbatim>\<open>last_updated\<close> raises
  TypeError.
\<close>

definition bump_stat :: "string \<Rightarrow> (string \<times> stat_value) list \<Rightarrow> py_error + (string \<times> stat_value) list" where
  "bump_stat stat_name stats =
     (case map_of stats stat_name of
        Some (Count n) \<Rightarrow> Inr (AList.update stat_name (Count (n + 1)) stats)
      | Some (Stamp t) \<Rightarrow> Inl TypeError
      | None \<Rightarrow> Inr (AList.update stat_name (Count 1) stats))"

text \<open>
  \<^verbatim>\<open>FirebaseService.increment_stat\<close>.  On the durable store the clock is read first for
  the default dictionary when the document is absent, then for \<^verbatim>\<open>last_updated\<close>.
\<close>

definition increment_stat :: "store \<Rightarrow> clock \<Rightarrow> string \<Rightarrow> store \<times> bool" where
  "increment_stat st clk stat_name =
     (if initialized st then
        (let current_stats = (case statistics st of
                                Some stats \<Rightarrow> stats
                              | None \<Rightarrow> zero_statistics (clk 0));
             stamp = (case statistics st of Some stats \<Rightarrow> clk 0 | None \<Rightarrow> clk 1)
         in case bump_stat stat_name current_stats of
              Inl e \<Rightarrow> (st, False)
            | Inr stats' \<Rightarrow>
                (st\<lparr>statistics := Some (AList.update ''last_updated'' (Stamp stamp) stats')\<rparr>,
                 True))
      else
        (case statistics st of
           None \<Rightarrow> (st, False)
         | Some stats \<Rightarrow>
             (case bump_stat stat_name stats of
                Inl e \<Rightarrow> (st, False)
              | Inr stats' \<Rightarrow>
                  (st\<lparr>statistics := Some (AList.update ''last_updated'' (Stamp (clk 0)) stats')\<rparr>,
                   True))))"

subsection \<open>Broadcasts\<close>

text \<open>
  The entry \<^verbatim>\<open>'expires_at'\<close> of the dictionary display in \<^verbatim>\<open>save_broadcast_message\<close>:
  \<^verbatim>\<open>(datetime.now() + timedelta(hours=duration_hours)).isoformat() if duration_hours > 0 else None\<close>.
  When the condition holds, the clock is read and then the name \<^verbatim>\<open>timedelta\<close> is looked
  up among the module's names.
\<close>

definition expires_at_entry :: "timestamp \<Rightarrow> int \<Rightarrow> py_error + timestamp option" where
  "expires_at_entry now duration_hours =
     (if duration_hours > 0 then
        (case lookup_global ''timedelta'' of
           Inl e \<Rightarrow> Inl e
         | Inr u \<Rightarrow> Inr (Some (now + hours duration_hours)))
      else Inr None)"

text \<open>
  \<^verbatim>\<open>FirebaseService.save_broadcast_message\<close>.  The identifier is \<^verbatim>\<open>broadcast_\<close> followed by
  the text of the float \<^verbatim>\<open>datetime.now().timestamp()\<close>; \<open>fmt\<close> is that rendering, which
  belongs to the runtime.  The clock is read for the identifier, for \<^verbatim>\<open>sent_at\<close> and for
  \<^verbatim>\<open>expires_at\<close>.  An exception anywhere makes the call answer the empty string.
\<close>

definition save_broadcast_message ::
  "store \<Rightarrow> clock \<Rightarrow> (timestamp \<Rightarrow> string) \<Rightarrow> string \<Rightarrow> int \<Rightarrow> int \<Rightarrow> store \<times> string" where
  "save_broadcast_message st clk fmt message duration_hours sent_by =
     (let message_id = ''broadcast_'' @ fmt (clk 0)
      in case expires_at_entry (clk 2) duration_hours of
           Inl e \<Rightarrow> (st, [])
         | Inr expires_at \<Rightarrow>
             (let broadcast_data =
                    \<lparr>b_id = message_id, b_message = message,
                     b_duration_hours = duration_hours, b_sent_by = sent_by,
                     b_sent_at = clk 1, b_expires_at = expires_at, b_is_active = True\<rparr>
              in if initialized st then
                   (st\<lparr>broadcasts := Some (AList.update message_id broadcast_data
                          (case broadcasts st of None \<Rightarrow> [] | Some bs \<Rightarrow> bs))\<rparr>,
                    message_id)
                 else
                   (st\<lparr>broadcasts := Some (AList.update message_id broadcast_data
                          (case broadcasts st of None \<Rightarrow> [] | Some bs \<Rightarrow> bs))\<rparr>,
                    message_id)))"

text \<open>
  The loop of \<^verbatim>\<open>get_active_broadcasts\<close> over the stored broadcasts: it returns the
  collection as the loop leaves it and the list it has appended to.  An inactive record
  is skipped; an active one whose \<^verbatim>\<open>expires_at\<close> is set and lies before \<open>current_time\<close>
  is marked inactive and skipped; any other is appended.
\<close>

fun scan_broadcasts ::
  "timestamp \<Rightarrow> (string \<times> broadcast_data) list \<Rightarrow>
   (string \<times> broadcast_data) list \<times> broadcast_data list" where
  "scan_broadcasts current_time [] = ([], [])"
| "scan_broadcasts current_time ((key, b) # rest) =
     (let (rest', found) = scan_broadcasts current_time rest
      in if b_is_active b then
           (case b_expires_at b of
              Some expires_time \<Rightarrow>
                if current_time > expires_time
                then ((key, b\<lparr>b_is_active := False\<rparr>) # rest', found)
                else ((key, b) # rest', b # found)
            | None \<Rightarrow> ((key, b) # rest', b # found))
         else ((key, b) # rest', found))"

text \<open>
  \<^verbatim>\<open>FirebaseService.get_active_broadcasts\<close>; \<open>current_time\<close> is its one clock reading.
  A durable collection without documents and a local storage without the key
  \<^verbatim>\<open>broadcasts\<close> both give the empty list.
\<close>

definition get_active_broadcasts :: "store \<Rightarrow> timestamp \<Rightarrow> store \<times> broadcast_data list" where
  "get_active_broadcasts st current_time =
     (case broadcasts st of
        None \<Rightarrow> (st, [])
      | Some bs \<Rightarrow>
          (let (bs', found) = scan_broadcasts current_time bs
           in (st\<lparr>broadcasts := Some bs'\<rparr>, found)))"

text \<open>
  \<^verbatim>\<open>FirebaseService.cleanup_expired_data\<close>: every broadcast whose \<^verbatim>\<open>expires_at\<close> is set and
  lies before \<open>current_time\<close> is deleted, active or not.
\<close>

definition cleanup_expired_data :: "store \<Rightarrow> timestamp \<Rightarrow> store" where
  "cleanup_expired_data st current_time =
     (case broadcasts st of
        None \<Rightarrow> st
      | Some bs \<Rightarrow>
          st\<lparr>broadcasts := Some (filter
                (\<lambda>(key, b). case b_expires_at b of
                               Some expires_time \<Rightarrow> \<not> current_time > expires_time
                             | None \<Rightarrow> True) bs)\<rparr>)"

subsection \<open>The store's interface as one step function\<close>

text \<open>The eleven operations of \<^verbatim>\<open>FirebaseService\<close> with their arguments.\<close>

datatype store_op =
    SaveUser clock user
  | GetUser int
  | UpdateUserLanguage clock int string
  | GetAllUsers
  | SaveSong clock song
  | GetSong string
  | GetStatistics clock
  | IncrementStat clock string
  | SaveBroadcast clock "timestamp \<Rightarrow> string" string int int
  | GetActiveBroadcasts timestamp
  | CleanupExpired timestamp

text \<open>The store after an operation (the three pure reads leave it as it is).\<close>

fun apply_op :: "store \<Rightarrow> store_op \<Rightarrow> store" where
  "apply_op st (SaveUser clk u) = fst (save_user st clk u)"
| "apply_op st (GetUser user_id) = st"
| "apply_op st (UpdateUserLanguage clk user_id language) =
     fst (update_user_language st clk user_id language)"
| "apply_op st GetAllUsers = st"
| "apply_op st (SaveSong clk s) = fst (save_song st clk s)"
| "apply_op st (GetSong song_id) = st"
| "apply_op st (GetStatistics clk) = fst (get_statistics st clk)"
| "apply_op st (IncrementStat clk stat_name) = fst (increment_stat st clk stat_name)"
| "apply_op st (SaveBroadcast clk fmt message duration_hours sent_by) =
     fst (save_broadcast_message st clk fmt message duration_hours sent_by)"
| "apply_op st (GetActiveBroadcasts current_time) = fst (get_active_broadcasts st current_time)"
| "apply_op st (CleanupExpired current_time) = cleanup_expired_data st current_time"

text \<open>Reading one statistics counter; \<open>None\<close> when it is absent or not a number.\<close>

definition counter :: "store \<Rightarrow> string \<Rightarrow> int option" where
  "counter st name =
     (case statistics st of
        None \<Rightarrow> None
      | Some stats \<Rightarrow> (case map_of stats name of Some (Count n) \<Rightarrow> Some n | _ \<Rightarrow> None))"

text \<open>The stored broadcasts as a list of documents.\<close>

definition stored_broadcasts :: "store \<Rightarrow> (string \<times> broadcast_data) list" where
  "stored_broadcasts st = (case broadcasts st of None \<Rightarrow> [] | Some bs \<Rightarrow> bs)"

section \<open>Downloader\<close>

subsection \<open>Option sets of the platform adapters\<close>

text \<open>An entry of the \<^verbatim>\<open>postprocessors\<close> list of a yt-dlp option dictionary.\<close>

record postprocessor =
  pp_key :: string
  pp_preferredcodec :: string
  pp_preferredquality :: string

text \<open>
  A yt-dlp option dictionary; a key that a dictionary does not have is \<open>None\<close> (for
  \<^verbatim>\<open>retry_sleep_functions\<close>, the empty list).
\<close>

record ydl_options =
  opt_format :: string
  opt_postprocessors :: "postprocessor list option"
  opt_outtmpl :: string
  opt_quiet :: bool
  opt_no_warnings :: "bool option"
  opt_extract_flat :: "string option"
  opt_fragment_retries :: "nat option"
  opt_retry_sleep_functions :: "(string \<times> (int \<Rightarrow> int)) list"

definition ffmpeg_extract_audio :: postprocessor where
  "ffmpeg_extract_audio =
     \<lparr>pp_key = ''FFmpegExtractAudio'', pp_preferredcodec = ''mp3'',
      pp_preferredquality = ''192''\<rparr>"

text \<open>\<^verbatim>\<open>self.ydl_opts\<close> as \<^verbatim>\<open>Downloader.__init__\<close> sets it from \<^verbatim>\<open>self.ffmpeg_available\<close>.\<close>

definition ydl_opts :: "bool \<Rightarrow> ydl_options" where
  "ydl_opts ffmpeg_available =
     (if ffmpeg_available then
        \<lparr>opt_format = ''bestaudio/best'',
         opt_postprocessors = Some [ffmpeg_extract_audio],
         opt_outtmpl = ''downloads/%(title)s.%(ext)s'',
         opt_quiet = False, opt_no_warnings = Some False,
         opt_extract_flat = Some ''discard_in_playlist'',
         opt_fragment_retries = Some 10,
         opt_retry_sleep_functions =
           [(''http'', \<lambda>n. min (n * 2) 10), (''fragment'', \<lambda>n. min (n * 2) 10)]\<rparr>
      else
        \<lparr>opt_format = ''bestaudio[ext=mp3]/bestaudio[ext=m4a]/bestaudio/best'',
         opt_postprocessors = Some [],
         opt_outtmpl = ''downloads/%(title)s.%(ext)s'',
         opt_quiet = False, opt_no_warnings = Some False,
         opt_extract_flat = Some ''discard_in_playlist'',
         opt_fragment_retries = Some 10,
         opt_retry_sleep_functions =
           [(''http'', \<lambda>n. min (n * 2) 10), (''fragment'', \<lambda>n. min (n * 2) 10)]\<rparr>)"

text \<open>The dictionaries built inside the TikTok, Pinterest and SoundCloud adapters.\<close>

definition tiktok_opts :: ydl_options where
  "tiktok_opts =
     \<lparr>opt_format = ''best'', opt_postprocessors = None,
      opt_outtmpl = ''downloads/tiktok_%(id)s.%(ext)s'',
      opt_quiet = True, opt_no_warnings = None, opt_extract_flat = None,
      opt_fragment_retries = None, opt_retry_sleep_functions = []\<rparr>"

definition pinterest_opts :: ydl_options where
  "pinterest_opts =
     \<lparr>opt_format = ''best'', opt_postprocessors = None,
      opt_outtmpl = ''downloads/pinterest_%(id)s.%(ext)s'',
      opt_quiet = True, opt_no_warnings = None, opt_extract_flat = None,
      opt_fragment_retries = None, opt_retry_sleep_functions = []\<rparr>"

definition soundcloud_opts :: ydl_options where
  "soundcloud_opts =
     \<lparr>opt_format = ''bestaudio/best'',
      opt_postprocessors = Some [ffmpeg_extract_audio],
      opt_outtmpl = ''downloads/soundcloud_%(title)s.%(ext)s'',
      opt_quiet = True, opt_no_warnings = None, opt_extract_flat = None,
      opt_fragment_retries = None, opt_retry_sleep_functions = []\<rparr>"

text \<open>
  The option dictionary that the adapter chosen by \<^verbatim>\<open>download_from_url\<close> hands to
  \<^verbatim>\<open>yt_dlp.YoutubeDL\<close>, for a downloader whose probe flag is \<open>ffmpeg_available\<close>.  The
  Instagram adapter does not use yt-dlp, and an unsupported platform has no adapter.
\<close>

definition adapter_options :: "bool \<Rightarrow> string option \<Rightarrow> ydl_options option" where
  "adapter_options ffmpeg_available platform =
     (if platform = Some ''youtube'' then Some (ydl_opts ffmpeg_available)
      else if platform = Some ''instagram'' then None
      else if platform = Some ''tiktok'' then Some tiktok_opts
      else if platform = Some ''pinterest'' then Some pinterest_opts
      else if platform = Some ''soundcloud'' then Some soundcloud_opts
      else None)"

text \<open>Whether an option dictionary queues an FFmpeg post-processing step.\<close>

definition requests_ffmpeg :: "ydl_options \<Rightarrow> bool" where
  "requests_ffmpeg opts =
     (case opt_postprocessors opts of
        None \<Rightarrow> False
      | Some pps \<Rightarrow> list_ex (\<lambda>pp. startswith (pp_key pp) ''FFmpeg'') pps)"

subsection \<open>Audio extraction\<close>

text \<open>
  \<^verbatim>\<open>os.path.splitext(p)[0]\<close> on a POSIX path: the path is cut at its last dot when that
  dot lies after the last slash and some character between the two is not a dot.
\<close>

definition rfind :: "char \<Rightarrow> string \<Rightarrow> int" where
  "rfind c p =
     (case filter (\<lambda>i. p ! i = c) (rev [0..<length p]) of
        [] \<Rightarrow> - 1
      | i # earlier \<Rightarrow> int i)"

definition splitext_root :: "string \<Rightarrow> string" where
  "splitext_root p =
     (let sepIndex = rfind CHR ''/'' p;
          dotIndex = rfind CHR ''.'' p
      in if dotIndex > sepIndex
            \<and> list_ex (\<lambda>i. p ! i \<noteq> CHR ''.'') [nat (sepIndex + 1)..<nat dotIndex]
         then take (nat dotIndex) p
         else p)"

text \<open>
  \<^verbatim>\<open>bytes.decode()\<close>, strict UTF-8.  The decoded text is represented by its UTF-8
  bytes, so decoding returns the bytes themselves when they are well-formed and raises
  UnicodeDecodeError (\<open>None\<close>) otherwise.
\<close>

fun utf8_valid :: "string \<Rightarrow> bool" where
  "utf8_valid [] = True"
| "utf8_valid (a # rest) =
     (if byte_in 0 127 a then utf8_valid rest
      else if byte_in 194 223 a then
        (case rest of
           b # rest1 \<Rightarrow> byte_in 128 191 b \<and> utf8_valid rest1
         | _ \<Rightarrow> False)
      else if byte_in 224 239 a then
        (case rest of
           b # c # rest2 \<Rightarrow>
             byte_in (if a = CHR 0xE0 then 160 else 128) (if a = CHR 0xED then 159 else 191) b
             \<and> byte_in 128 191 c \<and> utf8_valid rest2
         | _ \<Rightarrow> False)
      else if byte_in 240 244 a then
        (case rest of
           b # c # d # rest3 \<Rightarrow>
             byte_in (if a = CHR 0xF0 then 144 else 128) (if a = CHR 0xF4 then 143 else 191) b
             \<and> byte_in 128 191 c \<and> byte_in 128 191 d \<and> utf8_valid rest3
         | _ \<Rightarrow> False)
      else False)"

definition decode :: "string \<Rightarrow> string option" where
  "decode bytes = (if utf8_valid bytes then Some bytes else None)"

text \<open>
  What the child process leaves behind: its exit status, the bytes captured from its
  standard error, and which paths exist once it has exited.
\<close>

record child_outcome =
  returncode :: int
  stderr :: string
  exists_after :: "string \<Rightarrow> bool"

text \<open>
  What \<^verbatim>\<open>extract_audio_from_video\<close> asks of its surroundings: whether the video file
  exists, the probe flag \<^verbatim>\<open>self.ffmpeg_available\<close>, the path
  \<^verbatim>\<open>ffmpeg_manager.get_ffmpeg_path()\<close>, and what starting the given command and waiting
  for it gives (an exception when the process cannot be started).
\<close>

record extract_env =
  video_exists :: "string \<Rightarrow> bool"
  ffmpeg_available :: bool
  ffmpeg_path :: "string option"
  run_child :: "string list \<Rightarrow> py_error + child_outcome"

text \<open>The lines that \<^verbatim>\<open>extract_audio_from_video\<close> writes to the log.\<close>

datatype extract_log =
    VideoFileNotFound string
  | FFmpegNotAvailable
  | FFmpegNotFound
  | AudioExtracted string
  | ErrorExtractingAudio string
  | ErrorExtractingAudioFromVideo py_error

text \<open>
  The outcome of a call: the value returned, the commands for which a child process
  was started, and the log lines written.
\<close>

record extract_outcome =
  returned :: "string option"
  spawned :: "string list list"
  logged :: "extract_log list"

definition ffmpeg_command :: "string \<Rightarrow> string \<Rightarrow> string \<Rightarrow> string list" where
  "ffmpeg_command ffmpeg video_path audio_path =
     [ffmpeg, ''-i'', video_path, ''-vn'', ''-acodec'', ''libmp3lame'',
      ''-ab'', ''192k'', ''-ar'', ''44100'', ''-y'', audio_path]"

text \<open>\<^verbatim>\<open>Downloader.extract_audio_from_video\<close>.\<close>

definition extract_audio_from_video :: "extract_env \<Rightarrow> string \<Rightarrow> extract_outcome" where
  "extract_audio_from_video env video_path =
     (if \<not> video_exists env video_path then
        \<lparr>returned = None, spawned = [], logged = [VideoFileNotFound video_path]\<rparr>
      else if \<not> ffmpeg_available env then
        \<lparr>returned = None, spawned = [], logged = [FFmpegNotAvailable]\<rparr>
      else
        (let audio_path = splitext_root video_path @ ''.mp3''
         in case ffmpeg_path env of
              None \<Rightarrow> \<lparr>returned = None, spawned = [], logged = [FFmpegNotFound]\<rparr>
            | Some ffmpeg \<Rightarrow>
                if ffmpeg = [] then
                  \<lparr>returned = None, spawned = [], logged = [FFmpegNotFound]\<rparr>
                else
                  (let cmd = ffmpeg_command ffmpeg video_path audio_path
                   in case run_child env cmd of
                        Inl e \<Rightarrow>
                          \<lparr>returned = None, spawned = [],
                           logged = [ErrorExtractingAudioFromVideo e]\<rparr>
                      | Inr child \<Rightarrow>
                          if returncode child = 0 \<and> exists_after child audio_path then
                            \<lparr>returned = Some audio_path, spawned = [cmd],
                             logged = [AudioExtracted audio_path]\<rparr>
                          else if stderr child = [] then
                            \<lparr>returned = None, spawned = [cmd],
                             logged = [ErrorExtractingAudio ''Unknown error'']\<rparr>
                          else
                            (case decode (stderr child) of
                               None \<Rightarrow>
                                 \<lparr>returned = None, spawned = [cmd],
                                  logged = [ErrorExtractingAudioFromVideo UnicodeDecodeError]\<rparr>
                             | Some error_msg \<Rightarrow>
                                 \<lparr>returned = None, spawned = [cmd],
                                  logged = [ErrorExtractingAudio error_msg]\<rparr>))))"

section \<open>Conversation handlers\<close>

text \<open>The conversation states of \<^verbatim>\<open>bot.py\<close>; a user without an entry is idle.\<close>

definition EDIT_SONG_WAITING_FOR_FILE :: nat where
  "EDIT_SONG_WAITING_FOR_FILE = 1"

definition EDIT_SONG_WAITING_FOR_INFO :: nat where
  "EDIT_SONG_WAITING_FOR_INFO = 2"

definition BROADCAST_WAITING_FOR_MESSAGE :: nat where
  "BROADCAST_WAITING_FOR_MESSAGE = 3"

definition BROADCAST_WAITING_FOR_DURATION :: nat where
  "BROADCAST_WAITING_FOR_DURATION = 4"

text \<open>The two per-user dictionaries of \<^verbatim>\<open>MusicBot\<close>.\<close>

record bot =
  user_languages :: "int \<rightharpoonup> string"
  user_states :: "int \<rightharpoonup> nat"

text \<open>
  \<^verbatim>\<open>context.user_data\<close> of the user whose message is handled: the two scratch entries
  the flows keep there.
\<close>

record user_ctx =
  broadcast_message :: "string option"
  edit_file_id :: "string option"

text \<open>
  What a handler sends: a localized reply to the user (the message key with its
  arguments), or the broadcast text to another chat.
\<close>

datatype reply =
    ErrorReply "py_error + string"
  | InfoUpdated
  | BroadcastSent nat
  | BroadcastDuration int

datatype outgoing = ReplyText reply | SendMessage int string

text \<open>The languages that have a table in \<^verbatim>\<open>BOT_MESSAGES\<close> of \<^verbatim>\<open>config.py\<close>.\<close>

definition BOT_MESSAGES_languages :: "string list" where
  "BOT_MESSAGES_languages = [''en'', ''fa'']"

text \<open>\<^verbatim>\<open>MusicBot.get_user_language\<close>.\<close>

definition get_user_language :: "bot \<Rightarrow> int \<Rightarrow> string" where
  "get_user_language b user_id =
     (case user_languages b user_id of Some lang \<Rightarrow> lang | None \<Rightarrow> ''en'')"

text \<open>
  \<^verbatim>\<open>MusicBot.get_message\<close>: \<^verbatim>\<open>BOT_MESSAGES[lang]\<close> raises KeyError for a language
  without a table.  Both tables have every key the handlers ask for, so the message is
  otherwise the one asked for, here the reply itself.
\<close>

definition get_message :: "bot \<Rightarrow> int \<Rightarrow> reply \<Rightarrow> py_error + reply" where
  "get_message b user_id r =
     (if get_user_language b user_id \<in> set BOT_MESSAGES_languages then Inr r
      else Inl KeyError)"

text \<open>
  The \<^verbatim>\<open>except\<close> branch of both handlers: it replies with the error message.  When
  \<^verbatim>\<open>get_message\<close> raises there, the exception leaves the handler and nothing is sent
  (the bot's error handler fails on the same lookup and swallows the failure).
\<close>

definition reply_error :: "bot \<Rightarrow> int \<Rightarrow> py_error + string \<Rightarrow> outgoing list" where
  "reply_error b user_id detail =
     (case get_message b user_id (ErrorReply detail) of
        Inl e \<Rightarrow> []
      | Inr r \<Rightarrow> [ReplyText r])"

text \<open>
  The text sent to each user, an f-string: the megaphone emoji U+1F4E2 (bytes
  F0 9F 93 A2), a space, the message.
\<close>

definition broadcast_text :: "string \<Rightarrow> string" where
  "broadcast_text message = [CHR 0xF0, CHR 0x9F, CHR 0x93, CHR 0xA2, CHR 0x20] @ message"

text \<open>
  The loop of \<^verbatim>\<open>handle_broadcast\<close> over the users: a failed delivery is caught and
  logged, a successful one is counted.  \<open>delivers\<close> tells for which chat the transport
  accepts the message.
\<close>

fun send_broadcast :: "(int \<Rightarrow> bool) \<Rightarrow> string \<Rightarrow> user list \<Rightarrow> outgoing list \<times> nat" where
  "send_broadcast delivers message [] = ([], 0)"
| "send_broadcast delivers message (u # rest) =
     (let (sent, sent_count) = send_broadcast delivers message rest
      in if delivers (u_id u)
         then (SendMessage (u_id u) (broadcast_text message) # sent, sent_count + 1)
         else (sent, sent_count))"

text \<open>
  A reply made inside the \<^verbatim>\<open>try\<close> block: when \<^verbatim>\<open>get_message\<close> raises, control goes
  to the \<^verbatim>\<open>except\<close> branch.
\<close>

definition reply_in_try :: "bot \<Rightarrow> int \<Rightarrow> reply \<Rightarrow> outgoing list" where
  "reply_in_try b user_id r =
     (case get_message b user_id r of
        Inl e \<Rightarrow> reply_error b user_id (Inl e)
      | Inr r' \<Rightarrow> [ReplyText r'])"

text \<open>
  \<^verbatim>\<open>MusicBot.handle_broadcast\<close>.  The user state and the pending message are removed
  only at the end of the \<^verbatim>\<open>try\<close> block; every exception raised before that, by
  \<^verbatim>\<open>int(text)\<close> or by \<^verbatim>\<open>get_message\<close>, goes to the \<^verbatim>\<open>except\<close> branch, and the
  return for a missing message leaves the block early.
\<close>

definition handle_broadcast ::
  "bot \<Rightarrow> user_ctx \<Rightarrow> store \<Rightarrow> (int \<Rightarrow> bool) \<Rightarrow> int \<Rightarrow> string \<Rightarrow> bot \<times> user_ctx \<times> outgoing list" where
  "handle_broadcast b ctx st delivers user_id text =
     (case py_int text of
        None \<Rightarrow> (b, ctx, reply_error b user_id (Inl ValueError))
      | Some duration_hours \<Rightarrow>
          (case broadcast_message ctx of
             None \<Rightarrow> (b, ctx, reply_in_try b user_id (ErrorReply (Inr ''Message not found'')))
           | Some message \<Rightarrow>
               if message = [] then
                 (b, ctx, reply_in_try b user_id (ErrorReply (Inr ''Message not found'')))
               else
                 (let (sent, sent_count) = send_broadcast delivers message (get_all_users st)
                  in case get_message b user_id (BroadcastSent sent_count) of
                       Inl e \<Rightarrow> (b, ctx, sent @ reply_error b user_id (Inl e))
                     | Inr r1 \<Rightarrow>
                         if duration_hours > 0 then
                           (case get_message b user_id (BroadcastDuration duration_hours) of
                              Inl e \<Rightarrow>
                                (b, ctx, sent @ [ReplyText r1] @ reply_error b user_id (Inl e))
                            | Inr r2 \<Rightarrow>
                                (b\<lparr>user_states := (user_states b)(user_id := None)\<rparr>,
                                 ctx\<lparr>broadcast_message := None\<rparr>,
                                 sent @ [ReplyText r1, ReplyText r2]))
                         else
                           (b\<lparr>user_states := (user_states b)(user_id := None)\<rparr>,
                            ctx\<lparr>broadcast_message := None\<rparr>,
                            sent @ [ReplyText r1]))))"

text \<open>
  \<^verbatim>\<open>MusicBot.handle_song_edit\<close>.  The dictionary parsed from the text is not used
  afterwards, and parsing it cannot raise.
\<close>

definition handle_song_edit :: "bot \<Rightarrow> user_ctx \<Rightarrow> int \<Rightarrow> string \<Rightarrow> bot \<times> user_ctx \<times> outgoing list" where
  "handle_song_edit b ctx user_id text =
     (case edit_file_id ctx of
        None \<Rightarrow> (b, ctx, reply_in_try b user_id (ErrorReply (Inr ''File not found'')))
      | Some file_id \<Rightarrow>
          if file_id = [] then
            (b, ctx, reply_in_try b user_id (ErrorReply (Inr ''File not found'')))
          else
            (case get_message b user_id InfoUpdated of
               Inl e \<Rightarrow> (b, ctx, reply_error b user_id (Inl e))
             | Inr r \<Rightarrow>
                 (b\<lparr>user_states := (user_states b)(user_id := None)\<rparr>,
                  ctx\<lparr>edit_file_id := None\<rparr>,
                  [ReplyText r])))"

section \<open>Concrete inputs\<close>

text \<open>The values at which the theorems below are instantiated and the code is run.\<close>

definition example_clock :: clock where
  "example_clock n = 1000 + int n"

definition example_fmt :: "timestamp \<Rightarrow> string" where
  "example_fmt t = ''1730000000.0''"

definition example_permanent :: broadcast_data where
  "example_permanent =
     \<lparr>b_id = ''broadcast_1.0'', b_message = ''welcome'', b_duration_hours = 0,
      b_sent_by = 123456789, b_sent_at = 1000, b_expires_at = None, b_is_active = True\<rparr>"

definition example_timed :: broadcast_data where
  "example_timed =
     \<lparr>b_id = ''broadcast_2.0'', b_message = ''maintenance at noon'', b_duration_hours = 1,
      b_sent_by = 123456789, b_sent_at = 1000, b_expires_at = Some (1000 + hours 1),
      b_is_active = True\<rparr>"

definition example_store :: store where
  "example_store =
     \<lparr>initialized = False, users = [], songs = [],
      statistics = Some (zero_statistics 0),
      broadcasts = Some [(''broadcast_1.0'', example_permanent),
                         (''broadcast_2.0'', example_timed)]\<rparr>"

definition example_user :: user where
  "example_user =
     \<lparr>u_id = 7, u_username = None, u_first_name = Some ''Ann'', u_last_name = None,
      u_language = ''en'', u_joined_at = Some 1000, u_is_active = False\<rparr>"

definition example_bot :: bot where
  "example_bot =
     \<lparr>user_languages = Map.empty,
      user_states = [123456789 \<mapsto> BROADCAST_WAITING_FOR_DURATION]\<rparr>"

definition example_ctx :: user_ctx where
  "example_ctx = \<lparr>broadcast_message = Some ''maintenance at noon'', edit_file_id = None\<rparr>"

text \<open>
  A child process that exits with status 1, has written one byte that is not UTF-8
  to its standard error, and has left no output file.
\<close>

definition example_failed_child :: child_outcome where
  "example_failed_child =
     \<lparr>returncode = 1, stderr = [CHR 0xFF], exists_after = (\<lambda>p. False)\<rparr>"

definition example_env :: extract_env where
  "example_env =
     \<lparr>video_exists = (\<lambda>p. True), ffmpeg_available = True, ffmpeg_path = Some ''ffmpeg'',
      run_child = (\<lambda>cmd. Inr example_failed_child)\<rparr>"

text \<open>A child process that exits with status 0 and has written the output file.\<close>

definition example_good_child :: child_outcome where
  "example_good_child =
     \<lparr>returncode = 0, stderr = ''size= 120kB'', exists_after = (\<lambda>p. p = ''temp/clip.mp3'')\<rparr>"

definition example_good_env :: extract_env where
  "example_good_env =
     \<lparr>video_exists = (\<lambda>p. True), ffmpeg_available = True, ffmpeg_path = Some ''ffmpeg'',
      run_child = (\<lambda>cmd. Inr example_good_child)\<rparr>"

text \<open>The local storage after \<^verbatim>\<open>increment_stat('total_users')\<close> has been called twice.\<close>

definition example_counted :: store where
  "example_counted =
     apply_op (apply_op (use_local_storage 0) (IncrementStat example_clock ''total_users''))
       (IncrementStat example_clock ''total_users'')"

section \<open>Auxiliary facts\<close>

subsection \<open>Substrings\<close>

lemma startswith_iff: "startswith s p \<longleftrightarrow> (\<exists>ss. s = p @ ss)"
  by (induction s p rule: startswith.induct) auto

text \<open>\<open>str_in\<close> is the substring test: the needle occurs somewhere in the haystack.\<close>

lemma str_in_iff: "str_in n h \<longleftrightarrow> (\<exists>ps ss. h = ps @ n @ ss)"
proof (induction h)
  case Nil
  then show ?case by auto
next
  case (Cons c cs)
  show ?case
  proof
    assume "str_in n (c # cs)"
    then consider "startswith (c # cs) n" | "str_in n cs" by auto
    then show "\<exists>ps ss. c # cs = ps @ n @ ss"
    proof cases
      case 1
      then obtain ss where "c # cs = n @ ss" by (auto simp: startswith_iff)
      then have "c # cs = [] @ n @ ss" by simp
      then show ?thesis by blast
    next
      case 2
      then obtain ps ss where "cs = ps @ n @ ss" using Cons.IH by blast
      then have "c # cs = (c # ps) @ n @ ss" by simp
      then show ?thesis by blast
    qed
  next
    assume "\<exists>ps ss. c # cs = ps @ n @ ss"
    then obtain ps ss where eq: "c # cs = ps @ n @ ss" by blast
    show "str_in n (c # cs)"
    proof (cases ps)
      case Nil
      with eq have "startswith (c # cs) n" by (auto simp: startswith_iff)
      then show ?thesis by simp
    next
      case (Cons p ps')
      with eq have "cs = ps' @ n @ ss" by simp
      then have "str_in n cs" using Cons.IH by blast
      then show ?thesis by simp
    qed
  qed
qed

subsection \<open>Dictionaries\<close>

lemma update_set:
  "(k', v') \<in> set (AList.update k v al) \<Longrightarrow> (k', v') = (k, v) \<or> (k', v') \<in> set al"
  by (induction al) (auto split: if_splits)

subsection \<open>The loop over the broadcasts\<close>

lemma scan_found:
  "set (snd (scan_broadcasts now bs)) =
     {b. \<exists>k. (k, b) \<in> set bs \<and> b_is_active b \<and> (\<forall>e. b_expires_at b = Some e \<longrightarrow> \<not> now > e)}"
proof (induction bs)
  case Nil
  then show ?case by simp
next
  case (Cons p bs)
  obtain k b where p: "p = (k, b)" by (cases p)
  show ?case unfolding p
    by (auto simp: Cons.IH case_prod_unfold Let_def split: option.splits)
qed

lemma scan_store:
  "fst (scan_broadcasts now bs) =
     map (\<lambda>(k, b). (k, if b_is_active b \<and> (\<exists>e. b_expires_at b = Some e \<and> now > e)
                               then b\<lparr>b_is_active := False\<rparr> else b)) bs"
proof (induction bs)
  case Nil
  then show ?case by simp
next
  case (Cons p bs)
  obtain k b where p: "p = (k, b)" by (cases p)
  show ?case unfolding p
    by (auto simp: Cons.IH case_prod_unfold Let_def split: option.splits)
qed

text \<open>A record is listed exactly when it is stored, active and not past its expiry.\<close>

lemma listed_iff:
  "b \<in> set (snd (get_active_broadcasts st now)) \<longleftrightarrow>
     (\<exists>k. (k, b) \<in> set (stored_broadcasts st)) \<and> b_is_active b
       \<and> (\<forall>e. b_expires_at b = Some e \<longrightarrow> now \<le> e)"
  by (cases "broadcasts st")
     (auto simp: get_active_broadcasts_def stored_broadcasts_def scan_found case_prod_unfold Let_def)

text \<open>Listing marks the active records past their expiry inactive and changes nothing else.\<close>

lemma stored_after_listing:
  "stored_broadcasts (fst (get_active_broadcasts st now)) =
     map (\<lambda>(k, b). (k, if b_is_active b \<and> (\<exists>e. b_expires_at b = Some e \<and> now > e)
                               then b\<lparr>b_is_active := False\<rparr> else b)) (stored_broadcasts st)"
  by (cases "broadcasts st")
     (auto simp: get_active_broadcasts_def stored_broadcasts_def scan_store case_prod_unfold Let_def)

text \<open>No operation other than listing leaves behind an inactive record that was not there.\<close>

lemma deactivation_frame:
  assumes "\<forall>t. op \<noteq> GetActiveBroadcasts t"
    and "(k', b') \<in> set (stored_broadcasts (apply_op st op))"
    and "\<not> b_is_active b'"
  shows "(k', b') \<in> set (stored_broadcasts st)"
proof (cases op)
  case (SaveUser clk u)
  with assms show ?thesis
    by (auto simp: save_user_def stored_broadcasts_def Let_def split: option.splits if_splits)
next
  case (UpdateUserLanguage clk i l)
  with assms show ?thesis
    by (auto simp: update_user_language_def stored_broadcasts_def Let_def split: option.splits)
next
  case (SaveSong clk s)
  with assms show ?thesis by (auto simp: save_song_def stored_broadcasts_def Let_def)
next
  case (GetStatistics clk)
  with assms show ?thesis
    by (auto simp: get_statistics_def stored_broadcasts_def Let_def split: option.splits if_splits)
next
  case (IncrementStat clk n)
  with assms show ?thesis
    by (auto simp: increment_stat_def stored_broadcasts_def Let_def
             split: option.splits if_splits sum.splits)
next
  case (SaveBroadcast clk fmt m d s)
  with assms show ?thesis
    by (auto simp: save_broadcast_message_def stored_broadcasts_def Let_def
             split: option.splits if_splits sum.splits dest!: update_set)
next
  case (CleanupExpired t)
  with assms show ?thesis
    by (auto simp: cleanup_expired_data_def stored_broadcasts_def split: option.splits)
qed (use assms in auto)

section \<open>Platform classifier: the two implementations\<close>

text \<open>
  Claim C10.  The module-level helper \<^verbatim>\<open>get_platform_from_url\<close> and the private method
  \<^verbatim>\<open>Downloader._get_platform_from_url\<close> are extensionally equal: on every URL string
  they return the same platform name or both return None.
\<close>

theorem classifiers_agree:
  "get_platform_from_url url = downloader_get_platform_from_url url"
  by (simp add: get_platform_from_url_def downloader_get_platform_from_url_def)

section \<open>Platform classifier: what it returns\<close>

text \<open>
  Claim C6, as stated: every URL that contains a platform's domain fragment, in any
  letter case, is classified as that platform.  The URL below contains \<^verbatim>\<open>tiktok.com\<close>
  and is classified as \<^verbatim>\<open>youtube\<close>, because it also contains \<^verbatim>\<open>youtube.com\<close> and the
  test for YouTube comes first.
\<close>

theorem classify_two_fragments_counterexample:
  "str_in ''tiktok.com'' (lower ''https://www.TikTok.com/@user/video/1?ref=youtube.com'')
   \<and> get_platform_from_url ''https://www.TikTok.com/@user/video/1?ref=youtube.com''
       = Some ''youtube''
   \<and> get_platform_from_url ''https://www.TikTok.com/@user/video/1?ref=youtube.com''
       \<noteq> Some ''tiktok''"
  by code_simp

text \<open>
  Claim C6, amended.  Each of the two classifiers returns the first platform of the table
  \<^verbatim>\<open>SOCIAL_MEDIA_PLATFORMS\<close>, in the order youtube, instagram, tiktok, pinterest,
  soundcloud, one of whose fragments occurs as a substring of the lower-cased URL, and
  None when no fragment of any platform occurs.  So a URL that contains fragments of one
  platform only is classified as that platform, and the result depends on nothing but
  these case-insensitive substring tests.
\<close>

theorem classify_first_match:
  "get_platform_from_url url =
     map_option fst
       (find (\<lambda>(platform, fragments).
                \<exists>f \<in> set fragments. \<exists>pre post. lower url = pre @ f @ post)
          SOCIAL_MEDIA_PLATFORMS)
   \<and> downloader_get_platform_from_url url =
     map_option fst
       (find (\<lambda>(platform, fragments).
                \<exists>f \<in> set fragments. \<exists>pre post. lower url = pre @ f @ post)
          SOCIAL_MEDIA_PLATFORMS)"
proof -
  have "get_platform_from_url url =
     map_option fst
       (find (\<lambda>(platform, fragments). \<exists>f \<in> set fragments. str_in f (lower url))
          SOCIAL_MEDIA_PLATFORMS)"
    by (simp add: get_platform_from_url_def SOCIAL_MEDIA_PLATFORMS_def Let_def)
  moreover have "downloader_get_platform_from_url url =
     map_option fst
       (find (\<lambda>(platform, fragments). \<exists>f \<in> set fragments. str_in f (lower url))
          SOCIAL_MEDIA_PLATFORMS)"
    by (simp add: downloader_get_platform_from_url_def SOCIAL_MEDIA_PLATFORMS_def Let_def)
  ultimately show ?thesis by (simp only: str_in_iff)
qed

text \<open>The theorem at a short Pinterest link written in capitals.\<close>

theorem classify_first_match_witness:
  "map_option fst
     (find (\<lambda>(platform, fragments).
              \<exists>f \<in> set fragments. \<exists>pre post. lower ''https://PIN.it/3xYz'' = pre @ f @ post)
        SOCIAL_MEDIA_PLATFORMS)
   = Some ''pinterest''"
proof -
  have "get_platform_from_url ''https://PIN.it/3xYz'' = Some ''pinterest''" by code_simp
  then show ?thesis using classify_first_match [of "''https://PIN.it/3xYz''"] by simp
qed

section \<open>Broadcast records\<close>

subsection \<open>Saving\<close>

text \<open>
  With a positive duration the dictionary display of \<^verbatim>\<open>save_broadcast_message\<close> evaluates
  the unbound name \<^verbatim>\<open>timedelta\<close>; the NameError is caught, nothing is stored and the
  empty string is returned.
\<close>

lemma save_broadcast_message_positive_duration:
  "duration_hours > 0 \<Longrightarrow>
   save_broadcast_message st clk fmt message duration_hours sent_by = (st, [])"
  by (simp add: save_broadcast_message_def expires_at_entry_def lookup_global_def
        firebase_service_globals_def)

text \<open>
  With duration 0 the call stores an active record without expiry under the identifier
  it returns, which is not empty.
\<close>

lemma save_broadcast_message_permanent:
  "save_broadcast_message st clk fmt message 0 sent_by = (st', mid) \<Longrightarrow>
   mid = ''broadcast_'' @ fmt (clk 0) \<and> mid \<noteq> [] \<and>
   map_of (stored_broadcasts st') mid =
     Some \<lparr>b_id = mid, b_message = message, b_duration_hours = 0, b_sent_by = sent_by,
           b_sent_at = clk 1, b_expires_at = None, b_is_active = True\<rparr>"
  by (auto simp: save_broadcast_message_def expires_at_entry_def stored_broadcasts_def Let_def
        update_conv' split: if_splits)

text \<open>
  Claim C1.  The claim says that for every message, every duration of at least 0 hours
  and every sender, \<^verbatim>\<open>save_broadcast_message\<close> returns a non-empty identifier and stores
  an active record whose expiry is the sent time plus the duration when the duration is
  positive.  The code run on the message \<^verbatim>\<open>hello\<close> with a duration of 1 hour, on a fresh
  local storage: it returns the empty string and the storage is unchanged, no record
  being stored.
\<close>

theorem save_broadcast_message_one_hour_stores_nothing:
  "save_broadcast_message (use_local_storage 0) example_clock example_fmt ''hello'' 1 42
     = (use_local_storage 0, [])"
  by (simp add: save_broadcast_message_def expires_at_entry_def lookup_global_def
        firebase_service_globals_def)

subsection \<open>Listing\<close>

text \<open>
  A record saved with duration 0 is listed at every later time, as long as nothing
  else touches the store.
\<close>

lemma permanent_broadcast_always_listed:
  assumes "save_broadcast_message st clk fmt message 0 sent_by = (st', mid)"
  shows "\<lparr>b_id = mid, b_message = message, b_duration_hours = 0, b_sent_by = sent_by,
           b_sent_at = clk 1, b_expires_at = None, b_is_active = True\<rparr>
         \<in> set (snd (get_active_broadcasts st' now))"
proof -
  from save_broadcast_message_permanent [OF assms]
  have "map_of (stored_broadcasts st') mid =
     Some \<lparr>b_id = mid, b_message = message, b_duration_hours = 0, b_sent_by = sent_by,
           b_sent_at = clk 1, b_expires_at = None, b_is_active = True\<rparr>"
    by blast
  then have "(mid, \<lparr>b_id = mid, b_message = message, b_duration_hours = 0,
        b_sent_by = sent_by, b_sent_at = clk 1, b_expires_at = None, b_is_active = True\<rparr>)
      \<in> set (stored_broadcasts st')"
    by (rule map_of_SomeD)
  then show ?thesis unfolding listed_iff by auto
qed

text \<open>
  No operation stores a record with an expiry, so a store that starts as a fresh local
  storage never holds one, and listing never finds a record to deactivate there.
\<close>

lemma apply_op_keeps_no_expiry:
  assumes "\<forall>(k, b) \<in> set (stored_broadcasts st). b_expires_at b = None"
  shows "\<forall>(k, b) \<in> set (stored_broadcasts (apply_op st op)). b_expires_at b = None"
proof (cases op)
  case (SaveUser clk u)
  with assms show ?thesis
    by (auto simp: save_user_def stored_broadcasts_def Let_def split: option.splits if_splits)
next
  case (UpdateUserLanguage clk i l)
  with assms show ?thesis
    by (auto simp: update_user_language_def stored_broadcasts_def Let_def split: option.splits)
next
  case (SaveSong clk s)
  with assms show ?thesis by (auto simp: save_song_def stored_broadcasts_def Let_def)
next
  case (GetStatistics clk)
  with assms show ?thesis
    by (auto simp: get_statistics_def stored_broadcasts_def Let_def split: option.splits if_splits)
next
  case (IncrementStat clk n)
  with assms show ?thesis
    by (auto simp: increment_stat_def stored_broadcasts_def Let_def
             split: option.splits if_splits sum.splits)
next
  case (SaveBroadcast clk fmt m d s)
  show ?thesis
  proof (cases "d > 0")
    case True
    with SaveBroadcast assms show ?thesis
      by (simp add: save_broadcast_message_positive_duration)
  next
    case False
    with SaveBroadcast assms show ?thesis
      by (auto simp: save_broadcast_message_def expires_at_entry_def stored_broadcasts_def
               Let_def split: option.splits dest!: update_set)
  qed
next
  case (GetActiveBroadcasts t)
  with assms show ?thesis
    by (auto simp: stored_after_listing split: if_splits)
next
  case (CleanupExpired t)
  with assms show ?thesis
    by (auto simp: cleanup_expired_data_def stored_broadcasts_def split: option.splits)
next
  case (GetUser i)
  with assms show ?thesis by simp
next
  case GetAllUsers
  with assms show ?thesis by simp
next
  case (GetSong i)
  with assms show ?thesis by simp
qed

lemma local_storage_never_holds_expiry:
  "\<forall>(k, b) \<in> set (stored_broadcasts (foldl apply_op (use_local_storage t) ops)).
     b_expires_at b = None"
proof (induction ops rule: rev_induct)
  case Nil
  then show ?case by (simp add: stored_broadcasts_def use_local_storage_def)
next
  case (snoc op ops)
  then show ?case by (simp add: apply_op_keeps_no_expiry)
qed


section \<open>Recognizer\<close>

text \<open>An entry that raises makes the whole dictionary display raise.\<close>

lemma build_dict_raises:
  "(k, Inl e) \<in> set entries \<Longrightarrow> \<exists>e'. build_dict entries = Inl e'"
proof (induction entries rule: build_dict.induct)
  case 1
  then show ?case by simp
next
  case (2 k e rest)
  then show ?case by simp
next
  case (3 k v rest)
  then show ?case by (auto split: sum.splits)
qed

text \<open>
  Whenever the track has no \<^verbatim>\<open>hub\<close> entry, the path for \<^verbatim>\<open>youtube_url\<close> indexes the
  one-element default list at position 1; the IndexError is caught and the whole
  record is lost.
\<close>

lemma recognize_song_without_hub:
  assumes "map_of kvs ''hub'' = None"
  shows "recognize_song file_exists (Inr (PDict [(''track'', PDict kvs)])) = None"
proof -
  have "access_chain
          [Get ''hub'' empty_dict, Get ''options'' list_of_empty_dict, Index 1,
           Get ''actions'' list_of_empty_dict, Index 0, Get ''uri'' (PStr [])] (PDict kvs)
        = Inl IndexError"
    using assms by (simp add: empty_dict_def list_of_empty_dict_def)
  then have "\<exists>e'. song_info_of_track (PDict kvs) = Inl e'"
    unfolding song_info_of_track_def
    by (intro build_dict_raises [where k = "''youtube_url''" and e = IndexError]) simp
  then show ?thesis by (auto simp: recognize_song_def)
qed

text \<open>
  Claim C2.  The claim says that when the response omits any optional nested field,
  \<^verbatim>\<open>recognize_song\<close> still returns a song record with the documented defaults.  The code
  run on an existing file and the response
  \<^verbatim>\<open>{'track': {'title': 'Song', 'subtitle': 'Artist'}}\<close>, which omits \<^verbatim>\<open>hub\<close>,
  \<^verbatim>\<open>sections\<close>, \<^verbatim>\<open>genres\<close> and \<^verbatim>\<open>images\<close>: it returns None.
\<close>

theorem recognize_song_loses_record_without_hub:
  "recognize_song True
     (Inr (PDict [(''track'', PDict [(''title'', PStr ''Song''), (''subtitle'', PStr ''Artist'')])]))
   = None"
  by (simp add: recognize_song_def song_info_of_track_def empty_dict_def list_of_empty_dict_def)

text \<open>
  With two entries under \<^verbatim>\<open>hub.options\<close> and everything else omitted, the same track
  is returned with the defaults.
\<close>

lemma recognize_song_with_two_options:
  "recognize_song True
     (Inr (PDict [(''track'', PDict [(''title'', PStr ''Song''), (''subtitle'', PStr ''Artist''),
        (''hub'', PDict [(''options'', PList [PDict [], PDict []])])])]))
   = Some [(''title'', PStr ''Song''), (''artist'', PStr ''Artist''),
           (''album'', PStr ''Unknown''), (''duration'', PInt 0), (''genre'', PStr []),
           (''year'', PInt 0), (''spotify_url'', PStr []), (''apple_url'', PStr []),
           (''youtube_url'', PStr []), (''image_url'', PStr []), (''shazam_id'', PStr []),
           (''isrc'', PStr [])]"
  by (simp add: recognize_song_def song_info_of_track_def empty_dict_def list_of_empty_dict_def)

section \<open>Conversation handlers\<close>

text \<open>
  Claim C4.  The claim says that after any failure inside a multi-step flow the user's
  state entry no longer holds an intermediate value.  The code run for the administrator
  who is in the state awaiting-broadcast-duration and answers \<^verbatim>\<open>two hours\<close>: the
  conversion to an integer raises ValueError, the error reply is sent, and the bot, with
  that user's state entry, is left as it was.
\<close>

theorem handle_broadcast_keeps_state_on_bad_duration:
  "handle_broadcast example_bot example_ctx example_store (\<lambda>chat. True) 123456789 ''two hours''
     = (example_bot, example_ctx, [ReplyText (ErrorReply (Inl ValueError))])
   \<and> user_states example_bot 123456789 = Some BROADCAST_WAITING_FOR_DURATION"
proof -
  have "py_int ''two hours'' = None" by code_simp
  then show ?thesis
    by (simp add: handle_broadcast_def example_bot_def reply_error_def get_message_def
          get_user_language_def BOT_MESSAGES_languages_def)
qed

text \<open>The same on the missing-data paths of both handlers, and the reset on success.\<close>

lemma handle_broadcast_keeps_state_without_message:
  "broadcast_message ctx = None \<Longrightarrow>
   fst (handle_broadcast b ctx st delivers user_id text) = b"
  by (simp add: handle_broadcast_def split: option.splits)

lemma handle_song_edit_keeps_state_without_file:
  "edit_file_id ctx = None \<Longrightarrow> fst (handle_song_edit b ctx user_id text) = b"
  by (simp add: handle_song_edit_def)

lemma handle_broadcast_resets_state_on_success:
  "py_int text = Some h \<Longrightarrow> broadcast_message ctx = Some m \<Longrightarrow> m \<noteq> [] \<Longrightarrow>
   get_user_language b user_id \<in> set BOT_MESSAGES_languages \<Longrightarrow>
   user_states (fst (handle_broadcast b ctx st delivers user_id text)) user_id = None"
  by (simp add: handle_broadcast_def get_message_def case_prod_unfold Let_def)

section \<open>Downloader\<close>

subsection \<open>Option sets\<close>

text \<open>
  Without the conversion tool the shared option set, used for YouTube and for searches,
  queues no post-processing step; the TikTok and Pinterest sets never do.
\<close>

lemma ydl_opts_without_ffmpeg: "\<not> requests_ffmpeg (ydl_opts False)"
  by (simp add: requests_ffmpeg_def ydl_opts_def)

lemma tiktok_pinterest_never_request_ffmpeg:
  "\<not> requests_ffmpeg tiktok_opts \<and> \<not> requests_ffmpeg pinterest_opts"
  by (simp add: requests_ffmpeg_def tiktok_opts_def pinterest_opts_def)

text \<open>
  Claim C5.  The claim says that when the probe flag is false no adapter's option set
  contains an FFmpeg post-processor.  The code run with the flag false on the URL
  \<^verbatim>\<open>https://soundcloud.com/artist/track\<close>: the SoundCloud adapter's option set has the
  post-processor \<^verbatim>\<open>FFmpegExtractAudio\<close>.
\<close>

theorem soundcloud_requests_ffmpeg_without_tool:
  "map_option opt_postprocessors
     (adapter_options False
        (downloader_get_platform_from_url ''https://soundcloud.com/artist/track''))
   = Some (Some [\<lparr>pp_key = ''FFmpegExtractAudio'', pp_preferredcodec = ''mp3'',
                  pp_preferredquality = ''192''\<rparr>])"
proof -
  have "downloader_get_platform_from_url ''https://soundcloud.com/artist/track''
      = Some ''soundcloud''"
    by code_simp
  then show ?thesis
    by (simp add: adapter_options_def soundcloud_opts_def ffmpeg_extract_audio_def)
qed

subsection \<open>Audio extraction\<close>

lemma example_paths:
  "splitext_root ''temp/clip.mp4'' = ''temp/clip''"
  "decode [CHR 0xFF] = None"
  "decode ''size= 120kB'' = Some ''size= 120kB''"
  by code_simp+

text \<open>
  Without the tool, or without the video file, no child process is started and None
  is returned.
\<close>

lemma extract_audio_unavailable:
  "\<not> ffmpeg_available env \<or> \<not> video_exists env video_path \<Longrightarrow>
   returned (extract_audio_from_video env video_path) = None
   \<and> spawned (extract_audio_from_video env video_path) = []"
  by (auto simp: extract_audio_from_video_def)

text \<open>
  In terms of what the call is given: a child process is started exactly when the video
  file exists, the probe flag holds, an FFmpeg path is known and the process can be
  started, and then the one command run is the FFmpeg command for that path.
\<close>

lemma extract_audio_spawned:
  "spawned (extract_audio_from_video env video_path) =
     (case ffmpeg_path env of
        None \<Rightarrow> []
      | Some ffmpeg \<Rightarrow>
          if video_exists env video_path \<and> ffmpeg_available env \<and> ffmpeg \<noteq> []
             \<and> (\<exists>child. run_child env
                   (ffmpeg_command ffmpeg video_path (splitext_root video_path @ ''.mp3''))
                 = Inr child)
          then [ffmpeg_command ffmpeg video_path (splitext_root video_path @ ''.mp3'')]
          else [])"
  by (auto simp: extract_audio_from_video_def Let_def split: option.splits sum.splits)

text \<open>
  The call returns a path exactly when the video file exists, the probe flag holds, an
  FFmpeg path is known, the child process for the FFmpeg command exits with status 0 and
  the output file exists afterwards; the path returned is that of the output file.
\<close>

lemma extract_audio_success_iff:
  "returned (extract_audio_from_video env video_path) = Some p \<longleftrightarrow>
     p = splitext_root video_path @ ''.mp3''
     \<and> video_exists env video_path \<and> ffmpeg_available env
     \<and> (\<exists>ffmpeg child.
           ffmpeg_path env = Some ffmpeg \<and> ffmpeg \<noteq> []
           \<and> run_child env (ffmpeg_command ffmpeg video_path p) = Inr child
           \<and> returncode child = 0 \<and> exists_after child p)"
  by (auto simp: extract_audio_from_video_def Let_def split: option.splits sum.splits)

text \<open>
  When the child process ran and the exit status is not 0 or the output file is
  missing, None is returned; the line logged is the captured standard-error text when
  that is well-formed UTF-8, and the text \<^verbatim>\<open>Unknown error\<close> when nothing was captured.
\<close>

lemma extract_audio_failure_logged:
  assumes "video_exists env video_path" and "ffmpeg_available env"
    and "ffmpeg_path env = Some ffmpeg" and "ffmpeg \<noteq> []"
    and "run_child env (ffmpeg_command ffmpeg video_path (splitext_root video_path @ ''.mp3''))
           = Inr child"
    and "\<not> (returncode child = 0 \<and> exists_after child (splitext_root video_path @ ''.mp3''))"
  shows "returned (extract_audio_from_video env video_path) = None"
    and "stderr child = [] \<Longrightarrow>
           logged (extract_audio_from_video env video_path)
             = [ErrorExtractingAudio ''Unknown error'']"
    and "stderr child \<noteq> [] \<Longrightarrow> decode (stderr child) = Some error_msg \<Longrightarrow>
           logged (extract_audio_from_video env video_path) = [ErrorExtractingAudio error_msg]"
  using assms
  by (auto simp: extract_audio_from_video_def Let_def split: option.splits)

text \<open>A call whose child succeeds and writes \<^verbatim>\<open>temp/clip.mp3\<close> returns that path.\<close>

lemma extract_audio_example_success:
  "returned (extract_audio_from_video example_good_env ''temp/clip.mp4'')
     = Some ''temp/clip.mp3''"
  by (simp add: extract_audio_from_video_def example_good_env_def example_good_child_def
        example_paths Let_def)

text \<open>
  Claim C7.  The claim says that when the tool is available and the exit status is not
  0 or the output file is missing, the failure carries the captured standard-error
  diagnostics.  The code run with the tool available on \<^verbatim>\<open>temp/clip.mp4\<close>, where the
  child exits with status 1, leaves no output file and has written the single byte 0xFF
  to its standard error: decoding the captured bytes raises, the call returns None, and
  the line logged is the decoding error, not the captured diagnostics.
\<close>

theorem extract_audio_loses_undecodable_stderr:
  "ffmpeg_available example_env
   \<and> spawned (extract_audio_from_video example_env ''temp/clip.mp4'')
       = [ffmpeg_command ''ffmpeg'' ''temp/clip.mp4'' ''temp/clip.mp3'']
   \<and> returned (extract_audio_from_video example_env ''temp/clip.mp4'') = None
   \<and> logged (extract_audio_from_video example_env ''temp/clip.mp4'')
       = [ErrorExtractingAudioFromVideo UnicodeDecodeError]
   \<and> logged (extract_audio_from_video example_env ''temp/clip.mp4'')
       \<noteq> [ErrorExtractingAudio (stderr example_failed_child)]"
  by (simp add: extract_audio_from_video_def example_env_def example_failed_child_def
        example_paths)

section \<open>Statistics counters\<close>

lemma counter_lookup:
  "counter st name = Some n \<longleftrightarrow>
     (\<exists>stats. statistics st = Some stats \<and> map_of stats name = Some (Count n))"
  by (auto simp: counter_def split: option.splits stat_value.splits)

lemma counter_same_statistics:
  "statistics st' = statistics st \<Longrightarrow> counter st' name = counter st name"
  by (simp add: counter_def)

text \<open>\<^verbatim>\<open>increment_stat\<close> adds one to the counter it names and keeps every other counter.\<close>

lemma increment_stat_counter:
  assumes "counter st name = Some n" and "name \<noteq> ''last_updated''"
  shows "counter (fst (increment_stat st clk stat_name)) name
           = (if stat_name = name then Some (n + 1) else Some n)"
proof -
  from assms(1) obtain stats where s: "statistics st = Some stats"
    and m: "map_of stats name = Some (Count n)"
    by (auto simp: counter_lookup)
  show ?thesis
  proof (cases "stat_name = name")
    case True
    with s m assms(2) show ?thesis
      by (simp add: increment_stat_def bump_stat_def counter_def update_conv')
  next
    case False
    show ?thesis
    proof (cases "bump_stat stat_name stats")
      case (Inl e)
      with s m show ?thesis by (simp add: increment_stat_def counter_def False)
    next
      case (Inr stats')
      then have "map_of stats' name = Some (Count n)"
        using m False
        by (auto simp: bump_stat_def update_conv' split: option.splits stat_value.splits)
      with s Inr assms(2) False show ?thesis
        by (simp add: increment_stat_def counter_def update_conv')
    qed
  qed
qed

text \<open>
  \<^verbatim>\<open>save_user\<close> keeps every counter on the durable store, and every counter but
  \<^verbatim>\<open>total_users\<close> on the local storage, where it overwrites that one with the number
  of stored users.
\<close>

lemma save_user_counter:
  assumes "counter st name = Some n" and "name \<noteq> ''total_users'' \<or> initialized st"
  shows "counter (fst (save_user st clk u)) name = Some n"
proof -
  from assms(1) obtain stats where s: "statistics st = Some stats"
    and m: "map_of stats name = Some (Count n)"
    by (auto simp: counter_lookup)
  show ?thesis
  proof (cases "initialized st")
    case True
    with s m show ?thesis by (simp add: save_user_def counter_def Let_def)
  next
    case False
    with assms(2) have "name \<noteq> ''total_users''" by simp
    with False s m show ?thesis
      by (simp add: save_user_def counter_def Let_def update_conv')
  qed
qed

lemma save_user_total_users:
  assumes "\<not> initialized st" and "statistics st = Some stats"
  shows "counter (fst (save_user st clk u)) ''total_users''
           = Some (int (length (users (fst (save_user st clk u)))))"
  using assms by (simp add: save_user_def counter_def Let_def update_conv')

text \<open>The remaining operations do not touch the statistics that hold a counter.\<close>

lemma other_ops_keep_statistics:
  "statistics (fst (update_user_language st clk i l)) = statistics st"
  "statistics (fst (save_song st clk s)) = statistics st"
  "statistics (fst (save_broadcast_message st clk fmt m d sender)) = statistics st"
  "statistics (fst (get_active_broadcasts st t)) = statistics st"
  "statistics (cleanup_expired_data st t) = statistics st"
  "statistics st \<noteq> None \<Longrightarrow> fst (get_statistics st clk) = st"
proof -
  show "statistics (fst (update_user_language st clk i l)) = statistics st"
    by (simp add: update_user_language_def Let_def split: option.splits)
  show "statistics (fst (save_song st clk s)) = statistics st"
    by (simp add: save_song_def Let_def)
  show "statistics (fst (save_broadcast_message st clk fmt m d sender)) = statistics st"
    by (simp add: save_broadcast_message_def Let_def split: sum.splits)
  show "statistics (fst (get_active_broadcasts st t)) = statistics st"
    by (simp add: get_active_broadcasts_def case_prod_unfold Let_def split: option.splits)
  show "statistics (cleanup_expired_data st t) = statistics st"
    by (simp add: cleanup_expired_data_def split: option.splits)
  show "statistics st \<noteq> None \<Longrightarrow> fst (get_statistics st clk) = st"
    by (auto simp: get_statistics_def)
qed

text \<open>
  A counter that is present, other than \<^verbatim>\<open>total_users\<close> on the local storage, keeps its
  value under every operation except \<^verbatim>\<open>increment_stat\<close> on that counter, which adds
  exactly one.
\<close>

lemma present_counter_changes_only_by_increment:
  assumes "counter st name = Some n" and "name \<noteq> ''last_updated''"
    and "name \<noteq> ''total_users'' \<or> initialized st"
  shows "counter (apply_op st op) name = Some n
        \<or> ((\<exists>clk. op = IncrementStat clk name) \<and> counter (apply_op st op) name = Some (n + 1))"
proof (cases op)
  case (SaveUser clk u)
  with assms show ?thesis by (simp add: save_user_counter)
next
  case (GetUser i)
  with assms show ?thesis by simp
next
  case (UpdateUserLanguage clk i l)
  with assms show ?thesis
    by (simp add: counter_same_statistics [OF other_ops_keep_statistics(1)])
next
  case GetAllUsers
  with assms show ?thesis by simp
next
  case (SaveSong clk s)
  with assms show ?thesis
    by (simp add: counter_same_statistics [OF other_ops_keep_statistics(2)])
next
  case (GetSong i)
  with assms show ?thesis by simp
next
  case (GetStatistics clk)
  from assms have "statistics st \<noteq> None" by (auto simp: counter_lookup)
  then have "fst (get_statistics st clk) = st" by (rule other_ops_keep_statistics(6))
  with assms GetStatistics show ?thesis by simp
next
  case (IncrementStat clk stat_name)
  from assms have "counter (fst (increment_stat st clk stat_name)) name
         = (if stat_name = name then Some (n + 1) else Some n)"
    by (simp add: increment_stat_counter)
  with IncrementStat show ?thesis by (cases "stat_name = name") simp_all
next
  case (SaveBroadcast clk fmt m d s)
  with assms show ?thesis
    by (simp add: counter_same_statistics [OF other_ops_keep_statistics(3)])
next
  case (GetActiveBroadcasts t)
  with assms show ?thesis
    by (simp add: counter_same_statistics [OF other_ops_keep_statistics(4)])
next
  case (CleanupExpired t)
  with assms show ?thesis
    by (simp add: counter_same_statistics [OF other_ops_keep_statistics(5)])
qed

text \<open>
  Initialization on the durable store: while the statistics document is absent,
  \<^verbatim>\<open>get_statistics\<close> writes the three counters from the sizes of the collections.
\<close>

lemma get_statistics_initialises_counters:
  assumes "initialized st" and "statistics st = None"
  shows "counter (fst (get_statistics st clk)) ''total_users'' = Some (int (length (users st)))"
    and "counter (fst (get_statistics st clk)) ''songs_recognized''
           = Some (int (length (songs st)))"
    and "counter (fst (get_statistics st clk)) ''songs_downloaded''
           = Some (int (length (songs st)))"
  using assms by (simp_all add: get_statistics_def counter_def Let_def)

text \<open>The local storage after two increments of \<^verbatim>\<open>total_users\<close>.\<close>

lemma example_counted_value:
  "example_counted =
     \<lparr>initialized = False, users = [], songs = [],
      statistics = Some [(''total_users'', Count 2), (''songs_recognized'', Count 0),
                         (''songs_downloaded'', Count 0), (''last_updated'', Stamp 1000)],
      broadcasts = None\<rparr>"
  by (simp add: example_counted_def use_local_storage_def zero_statistics_def increment_stat_def
        bump_stat_def example_clock_def)

text \<open>
  Claim C8.  The claim says that every counter is non-decreasing and is updated only
  by \<^verbatim>\<open>increment_stat\<close>, no other operation such as \<^verbatim>\<open>save_user\<close> writing a counter
  directly.  The code run on the local storage: on a fresh storage \<^verbatim>\<open>save_user\<close> takes
  \<^verbatim>\<open>total_users\<close> from 0 to 1 without any increment, and after \<^verbatim>\<open>total_users\<close> has been
  incremented twice, saving the first user writes the number of stored users, 1,
  over the counter's value 2.  On the durable store the same call leaves the counter at 2.
\<close>

theorem save_user_overwrites_total_users:
  "counter (use_local_storage 0) ''total_users'' = Some 0
   \<and> counter (apply_op (use_local_storage 0) (SaveUser example_clock example_user))
       ''total_users'' = Some 1
   \<and> counter example_counted ''total_users'' = Some 2
   \<and> counter (apply_op example_counted (SaveUser example_clock example_user)) ''total_users''
       = Some 1
   \<and> counter (apply_op (example_counted\<lparr>initialized := True\<rparr>)
                (SaveUser example_clock example_user)) ''total_users''
       = Some 2"
  by (simp add: example_counted_value counter_def save_user_def Let_def use_local_storage_def
        zero_statistics_def)

section \<open>User records\<close>

text \<open>What \<^verbatim>\<open>get_user\<close> returns for the identifier of a user just saved.\<close>

lemma save_then_get_user:
  "get_user (fst (save_user st clk u)) (u_id u) =
     Some (u\<lparr>u_joined_at := Some (case u_joined_at u of Some t \<Rightarrow> t | None \<Rightarrow> clk 0),
             u_is_active := True\<rparr>)"
  by (simp add: get_user_def save_user_def Let_def update_conv' user_of_data_def User_def
        split: option.splits)

text \<open>
  Claim C9, as stated: the record read back equals the record saved in every field,
  the active flag included.  A user whose active flag is false is read back with the
  flag true.
\<close>

theorem inactive_user_round_trip_counterexample:
  "\<not> u_is_active example_user
   \<and> get_user (fst (save_user (use_local_storage 0) example_clock example_user))
        (u_id example_user)
       \<noteq> Some example_user"
proof -
  have a: "\<not> u_is_active example_user" by (simp add: example_user_def)
  have "get_user (fst (save_user (use_local_storage 0) example_clock example_user))
          (u_id example_user)
       = Some (example_user
           \<lparr>u_joined_at := Some (case u_joined_at example_user of
                                   Some t \<Rightarrow> t | None \<Rightarrow> example_clock 0),
            u_is_active := True\<rparr>)"
    by (rule save_then_get_user)
  then have "map_option u_is_active
        (get_user (fst (save_user (use_local_storage 0) example_clock example_user))
           (u_id example_user)) = Some True"
    by simp
  with a show ?thesis by auto
qed

text \<open>
  Claim C9, amended.  On either backend and for every user record, null names included,
  \<^verbatim>\<open>save_user\<close> followed by \<^verbatim>\<open>get_user\<close> with the same identifier returns a record with
  the same identifier, username, first name, last name and language, with the same join
  timestamp when the saved record has one (the time of saving otherwise), and with the
  active flag true whatever the saved flag was.
\<close>

theorem user_round_trip_up_to_active_flag:
  "get_user (fst (save_user st clk u)) (u_id u) =
     Some (u\<lparr>u_joined_at := Some (case u_joined_at u of Some t \<Rightarrow> t | None \<Rightarrow> clk 0),
             u_is_active := True\<rparr>)"
  by (rule save_then_get_user)


end
